theory Spec2Isabelle
  imports Complex_Main "HOL-Library.Code_Target_Nat"
begin

section \<open>JavaScript values, errors and string primitives\<close>

text \<open>
  The handlers of \<^verbatim>\<open>server.cjs\<close> read fields of a JSON request body. A field is absent
  (\<^verbatim>\<open>undefined\<close>), \<^verbatim>\<open>null\<close>, or a value of the type the handler expects. Integer
  columns and integer request fields are \<^typ>\<open>int\<close>, money and percentages are
  \<^typ>\<open>rat\<close>. The counter of a code format goes through JavaScript arithmetic, which is
  arithmetic on doubles: it is modelled below with its rounding.
\<close>

datatype 'a js = Undefined | Null | Val 'a

text \<open>\<^verbatim>\<open>x == null\<close>\<close>

definition is_nullish :: "'a js \<Rightarrow> bool" where
  "is_nullish x = (case x of Undefined \<Rightarrow> True | Null \<Rightarrow> True | Val _ \<Rightarrow> False)"

text \<open>\<^verbatim>\<open>!x\<close> for a string field and for a numeric field.\<close>

definition falsy_str :: "string js \<Rightarrow> bool" where
  "falsy_str x = (case x of Undefined \<Rightarrow> True | Null \<Rightarrow> True | Val s \<Rightarrow> s = [])"

definition falsy_num :: "rat js \<Rightarrow> bool" where
  "falsy_num x = (case x of Undefined \<Rightarrow> True | Null \<Rightarrow> True | Val v \<Rightarrow> v = 0)"

text \<open>\<^verbatim>\<open>ToNumber\<close>: \<^verbatim>\<open>undefined\<close> is NaN (here \<open>None\<close>), \<^verbatim>\<open>null\<close> is 0.\<close>

definition ToNumber :: "'a::zero js \<Rightarrow> 'a option" where
  "ToNumber x = (case x of Undefined \<Rightarrow> None | Null \<Rightarrow> Some 0 | Val v \<Rightarrow> Some v)"

definition isNaN :: "'a::zero js \<Rightarrow> bool" where
  "isNaN x = (ToNumber x = None)"

text \<open>\<^verbatim>\<open>a < b\<close> and \<^verbatim>\<open>a <= b\<close> on numbers: every comparison with NaN is false.\<close>

definition js_less :: "'a::{zero,ord} js \<Rightarrow> 'a js \<Rightarrow> bool" where
  "js_less a b = (case (ToNumber a, ToNumber b) of (Some x, Some y) \<Rightarrow> x < y | _ \<Rightarrow> False)"

definition js_less_eq :: "'a::{zero,ord} js \<Rightarrow> 'a js \<Rightarrow> bool" where
  "js_less_eq a b = (case (ToNumber a, ToNumber b) of (Some x, Some y) \<Rightarrow> x \<le> y | _ \<Rightarrow> False)"

text \<open>
  A value bound to a placeholder of \<^verbatim>\<open>query\<close>: \<^verbatim>\<open>undefined\<close> and \<^verbatim>\<open>null\<close> both become
  SQL \<^verbatim>\<open>NULL\<close> (\<open>None\<close>).
\<close>

definition to_sql :: "'a js \<Rightarrow> 'a option" where
  "to_sql x = (case x of Undefined \<Rightarrow> None | Null \<Rightarrow> None | Val v \<Rightarrow> Some v)"

text \<open>A string field inside a concatenation or a template literal.\<close>

definition js_concat_str :: "string js \<Rightarrow> string" where
  "js_concat_str x = (case x of Undefined \<Rightarrow> ''undefined'' | Null \<Rightarrow> ''null'' | Val s \<Rightarrow> s)"

text \<open>
  An \<^verbatim>\<open>Error\<close> object: its \<^verbatim>\<open>name\<close> and its \<^verbatim>\<open>message\<close>. \<^verbatim>\<open>String(error)\<close> is
  \<^verbatim>\<open>name + ": " + message\<close>.
\<close>

datatype js_error = JsError (err_name: string) (err_message: string)

definition error_toString :: "js_error \<Rightarrow> string" where
  "error_toString e = err_name e @ '': '' @ err_message e"

text \<open>Reading property \<open>p\<close> of \<^verbatim>\<open>undefined\<close> throws a TypeError (message as V8 prints it).\<close>

definition undefined_read :: "string \<Rightarrow> js_error" where
  "undefined_read p = JsError ''TypeError''
     (''Cannot read properties of undefined (reading '' @ [CHR 0x27] @ p @ [CHR 0x27] @ '')'')"

definition null_read :: "string \<Rightarrow> js_error" where
  "null_read p = JsError ''TypeError''
     (''Cannot read properties of null (reading '' @ [CHR 0x27] @ p @ [CHR 0x27] @ '')'')"

text \<open>\<^verbatim>\<open>x.p\<close> for a request field \<open>x\<close> that should be an object or an array.\<close>

definition read_of :: "'a js \<Rightarrow> string \<Rightarrow> js_error + 'a" where
  "read_of x p = (case x of Undefined \<Rightarrow> Inl (undefined_read p) | Null \<Rightarrow> Inl (null_read p) | Val v \<Rightarrow> Inr v)"

text \<open>
  \<^verbatim>\<open>connection.execute\<close> of mysql2 rejects with this TypeError when a bind parameter is
  \<^verbatim>\<open>undefined\<close>; \<^verbatim>\<open>null\<close> is sent as SQL \<^verbatim>\<open>NULL\<close>.
\<close>

definition bind_undefined_error :: js_error where
  "bind_undefined_error = JsError ''TypeError''
     ''Bind parameters must not contain undefined. To pass SQL NULL specify JS null''"

text \<open>The decimal digits of a natural number, and of an integer with its sign.\<close>

definition digit_char :: "nat \<Rightarrow> char" where
  "digit_char d = ''0123456789'' ! d"

fun digits_of :: "nat \<Rightarrow> string" where
  "digits_of n = (if n < 10 then [digit_char n] else digits_of (n div 10) @ [digit_char (n mod 10)])"

definition decimal :: "int \<Rightarrow> string" where
  "decimal i = (if i < 0 then CHR ''-'' # digits_of (nat (- i)) else digits_of (nat i))"

text \<open>
  A JavaScript number is a double. A number that holds an integer is modelled by that
  integer; the integers that are doubles are those up to \<open>2^53 = 9007199254740992\<close> in
  absolute value and, beyond, the multiples of the spacing \<open>ulp\<close> of their binade.
  \<open>nearest_double\<close> rounds a natural number to the nearest double, a tie going to the even
  mantissa; \<open>js_number\<close> is the number an integer becomes when the driver or the parser
  hands it to JavaScript, and \<open>js_add\<close> is \<^verbatim>\<open>a + b\<close> on two such numbers. (Doubles end
  near \<open>2^1024\<close>; no integer column comes near.)
\<close>

fun ulp :: "nat \<Rightarrow> nat" where
  "ulp a = (if a < 9007199254740992 then 1 else 2 * ulp (a div 2))"

definition nearest_double :: "nat \<Rightarrow> nat" where
  "nearest_double a =
     (let u = ulp a; q = a div u; r = a mod u
      in if 2 * r < u then q * u
         else if u < 2 * r then (q + 1) * u
         else if even q then q * u else (q + 1) * u)"

definition js_number :: "int \<Rightarrow> int" where
  "js_number x = (if x < 0 then - int (nearest_double (nat (- x))) else int (nearest_double (nat x)))"

definition js_add :: "int \<Rightarrow> int \<Rightarrow> int" where
  "js_add a b = js_number (a + b)"

text \<open>
  \<^verbatim>\<open>String(x)\<close> for a number \<open>x\<close> that holds an integer. Up to \<open>2^53\<close> these are all the
  digits of \<open>x\<close>. Beyond, JavaScript prints the shortest decimal that rounds to \<open>x\<close>
  (among several of the same length the closest, then the even one), followed by zeros;
  from 22 digits on it prints it with an exponent. \<open>shortest_decimal\<close> is the integer so
  printed: it is also the value the database receives when the number is bound to a
  placeholder of \<^verbatim>\<open>query\<close>, which sends the same text.
\<close>

definition shortest_candidate :: "nat \<Rightarrow> nat \<Rightarrow> nat option" where
  "shortest_candidate a e =
     (let p = 10 ^ e; lo = (a div p) * p; hi = lo + p;
          ok_lo = (nearest_double lo = a); ok_hi = (nearest_double hi = a)
      in if ok_lo \<and> ok_hi
         then (if a - lo < hi - a then Some lo
               else if hi - a < a - lo then Some hi
               else if even (a div p) then Some lo else Some hi)
         else if ok_lo then Some lo
         else if ok_hi then Some hi
         else None)"

fun shortest_from :: "nat \<Rightarrow> nat \<Rightarrow> nat" where
  "shortest_from a 0 = (case shortest_candidate a 0 of Some v \<Rightarrow> v | None \<Rightarrow> a)"
| "shortest_from a (Suc e) =
     (case shortest_candidate a (Suc e) of Some v \<Rightarrow> v | None \<Rightarrow> shortest_from a e)"

definition shortest_decimal :: "nat \<Rightarrow> nat" where
  "shortest_decimal a =
     (if a \<le> 9007199254740992 then a else shortest_from a (length (digits_of a) - 1))"

definition number_text :: "nat \<Rightarrow> string" where
  "number_text a =
     (if a \<le> 9007199254740992 then digits_of a
      else (let ds = digits_of (shortest_decimal a); n = length ds
            in if n \<le> 21 then ds
               else (let sig = rev (dropWhile (\<lambda>c. c = CHR ''0'') (rev ds))
                     in (if length sig = 1 then sig else hd sig # CHR ''.'' # tl sig)
                        @ ''e+'' @ digits_of (n - 1))))"

definition String_num :: "int \<Rightarrow> string" where
  "String_num x = (if x < 0 then CHR ''-'' # number_text (nat (- x)) else number_text (nat x))"

definition sql_number :: "int \<Rightarrow> int" where
  "sql_number x = (if x < 0 then - int (shortest_decimal (nat (- x))) else int (shortest_decimal (nat x)))"

text \<open>
  Reading a number back from its digits, and from a zero-padded code with its prefix
  removed. These two are not part of the program: they state what number a code shows.
\<close>

definition digit_val :: "char \<Rightarrow> nat" where
  "digit_val c = of_char c - 48"

definition parse_digits :: "string \<Rightarrow> nat" where
  "parse_digits s = foldl (\<lambda>a c. 10 * a + digit_val c) 0 s"

definition parse_number :: "string \<Rightarrow> int" where
  "parse_number s =
     (case dropWhile (\<lambda>c. c = CHR ''0'') s of
        c # r \<Rightarrow> if c = CHR ''-'' then - int (parse_digits r) else int (parse_digits s)
      | [] \<Rightarrow> int (parse_digits s))"

text \<open>
  \<^verbatim>\<open>s.padStart(targetLength, fill)\<close> with a one-character fill: a string already as long
  as \<open>targetLength\<close> (or a negative \<open>targetLength\<close>) comes back unchanged.
\<close>

definition padStart :: "string \<Rightarrow> int \<Rightarrow> char \<Rightarrow> string" where
  "padStart s targetLength fill = replicate (nat targetLength - length s) fill @ s"

text \<open>\<^verbatim>\<open>parts.join(sep)\<close>\<close>

fun join :: "string list \<Rightarrow> string \<Rightarrow> string" where
  "join [] sep = []"
| "join [x] sep = x"
| "join (x # y # ys) sep = x @ sep @ join (y # ys) sep"

section \<open>The database behind the shared connection\<close>

text \<open>
  One row type per table, with the columns the handlers below read or write. The schema is
  not part of the sources: counters, quantities and identifiers are taken to be integer
  columns, which the driver hands over as JavaScript numbers, and a nullable column is an
  \<open>option\<close>. Strings are compared for equality as they are. Rows of a table are kept in
  insertion order, which is the order a \<^verbatim>\<open>SELECT\<close> without \<^verbatim>\<open>ORDER BY\<close> is taken to
  return them in. The storage layer is taken to accept every statement it is sent.
\<close>

record codeformat =
  Code :: int
  PreFix :: string
  length_col :: int
  nextValue :: int

record product =
  p_id :: nat
  p_sku :: string
  productName :: "string option"
  category :: "string option"
  intQty :: "int option"
  p_cost :: "rat option"
  p_price :: "rat option"
  p_image :: "string option"
  maxDiscount :: "rat option"
  dicountAllowed :: int

record purchaseorder_row =
  po_id :: nat
  purchaseOrderCode :: string
  SupplierCode :: "string option"
  SupplierName :: "string option"
  TotalCost :: "rat option"
  postDate :: string
  docDate :: string

record purchaseorderdetails_row =
  poCode :: string
  ProductCode :: "string option"
  pod_productName :: "string option"
  qty :: "int option"
  pod_cost :: "rat option"

record sales_invoice_row =
  si_code :: string
  customer_id :: "string option"
  post_date :: "string option"
  due_date :: "string option"
  payment_method :: "string option"
  total_amount :: "rat option"
  discount_amount :: "rat option"
  net_total :: "rat option"

record cart_item_row =
  invoice_code :: string
  ci_sku :: "string option"
  ci_name :: "string option"
  ci_quantity :: "int option"
  ci_price :: "rat option"
  ci_discount :: rat

text \<open>The statements sent over the connection, in the order they were sent.\<close>

datatype stmt =
    Select_codeformats int
  | Update_codeformats_nextValue int int
  | Insert_products string
  | Update_products string
  | Update_products_intQty "int option" "string option"
  | Delete_purchaseorderdetails string
  | Delete_purchaseorder string
  | Insert_purchaseorder string
  | Insert_purchaseorderdetails string nat
  | BeginTransaction
  | Insert_sales_invoices string
  | Insert_cart_items string
  | Commit

record db =
  codeformats :: "codeformat list"
  products :: "product list"
  products_next_id :: nat
  purchaseorder :: "purchaseorder_row list"
  purchaseorder_next_id :: nat
  purchaseorderdetails :: "purchaseorderdetails_row list"
  sales_invoices :: "sales_invoice_row list"
  cart_items :: "cart_item_row list"
  in_transaction :: bool
  journal :: "stmt list"

definition sent :: "stmt \<Rightarrow> db \<Rightarrow> db" where
  "sent q d = d\<lparr>journal := journal d @ [q]\<rparr>"

section \<open>HTTP responses\<close>

datatype json = JString string | JNumber rat | JNull | JObject "(string \<times> json) list"

record response =
  status :: nat
  body :: "(string \<times> json) list"

text \<open>\<^verbatim>\<open>res.json\<close> leaves out a property whose value is \<^verbatim>\<open>undefined\<close>.\<close>

definition json_prop :: "string \<Rightarrow> ('a \<Rightarrow> json) \<Rightarrow> 'a js \<Rightarrow> (string \<times> json) list" where
  "json_prop k f x = (case x of Undefined \<Rightarrow> [] | Null \<Rightarrow> [(k, JNull)] | Val v \<Rightarrow> [(k, f v)])"

definition message_response :: "nat \<Rightarrow> string \<Rightarrow> response" where
  "message_response code msg = \<lparr>status = code, body = [(''message'', JString msg)]\<rparr>"

section \<open>generateEntryCode\<close>

text \<open>
  \<^verbatim>\<open>generateEntryCode(codeType)\<close>: select the rows of \<^verbatim>\<open>codeformats\<close> with that
  \<^verbatim>\<open>Code\<close>, read \<^verbatim>\<open>rows[0]\<close>, write \<^verbatim>\<open>nextValue + 1\<close> back to every row with that
  \<^verbatim>\<open>Code\<close>, and return \<^verbatim>\<open>PreFix + String(newValue).padStart(Length, "0")\<close>. With no
  row, \<^verbatim>\<open>rows[0]\<close> is \<^verbatim>\<open>undefined\<close> and reading its \<^verbatim>\<open>nextValue\<close> throws. The
  counter is read into a JavaScript number, the sum is a sum of numbers, and the row
  receives the value of the text that the driver sends for the new number.
\<close>

definition generateEntryCode :: "int \<Rightarrow> db \<Rightarrow> (js_error + string) \<times> db" where
  "generateEntryCode codeType d =
     (let rows = filter (\<lambda>r. Code r = codeType) (codeformats d);
          d1 = sent (Select_codeformats codeType) d
      in case rows of
           [] \<Rightarrow> (Inl (undefined_read ''nextValue''), d1)
         | r # _ \<Rightarrow>
             (let nextValue' = js_number (nextValue r);
                  newValue = js_add nextValue' 1;
                  d2 = sent (Update_codeformats_nextValue newValue codeType)
                         (d1\<lparr>codeformats :=
                               map (\<lambda>x. if Code x = codeType
                                         then x\<lparr>nextValue := sql_number newValue\<rparr> else x)
                                 (codeformats d1)\<rparr>);
                  codeSample = PreFix r @ padStart (String_num newValue) (length_col r) CHR ''0''
              in (Inr codeSample, d2)))"

text \<open>A caller that awaits \<open>n\<close> calls one after the other and collects the codes.\<close>

fun generate_sequentially :: "nat \<Rightarrow> int \<Rightarrow> db \<Rightarrow> (js_error + string list) \<times> db" where
  "generate_sequentially 0 codeType d = (Inr [], d)"
| "generate_sequentially (Suc n) codeType d =
     (case generateEntryCode codeType d of
        (Inl e, d1) \<Rightarrow> (Inl e, d1)
      | (Inr c, d1) \<Rightarrow>
          (case generate_sequentially n codeType d1 of
             (Inl e, d2) \<Rightarrow> (Inl e, d2)
           | (Inr cs, d2) \<Rightarrow> (Inr (c # cs), d2)))"

text \<open>The codes that \<open>n\<close> calls in a row are expected to give, starting from row \<open>r\<close>.\<close>

definition codes_from :: "codeformat \<Rightarrow> nat \<Rightarrow> string list" where
  "codes_from r n =
     map (\<lambda>k. PreFix r @ padStart (decimal (nextValue r + 1 + int k)) (length_col r) CHR ''0'')
       [0 ..< n]"

section \<open>Products: add-product and update-product\<close>

record add_product_req =
  ap_name :: "string js"
  ap_category :: "string js"
  ap_quantity :: "int js"
  ap_cost :: "rat js"
  ap_price :: "rat js"
  ap_image :: "string js"
  ap_maxDiscount :: "rat js"

text \<open>
  \<^verbatim>\<open>POST /api/add-product\<close>. An inserted row gets the table's next auto-increment id,
  which is the \<^verbatim>\<open>insertId\<close> of the result.
\<close>

definition add_product :: "add_product_req \<Rightarrow> db \<Rightarrow> response \<times> db" where
  "add_product req d =
     (if falsy_str (ap_name req) then (message_response 400 ''Product name is required'', d)
      else if falsy_str (ap_category req) then (message_response 400 ''Category is required'', d)
      else if ap_quantity req = Undefined \<or> ap_quantity req = Null
        then (message_response 400 ''Quantity is required'', d)
      else if isNaN (ap_quantity req) \<or> js_less (ap_quantity req) (Val 0)
        then (message_response 400 ''Quantity must be a non-negative number'', d)
      else if isNaN (ap_maxDiscount req) \<or> js_less (ap_maxDiscount req) (Val 0)
              \<or> js_less (Val 100) (ap_maxDiscount req)
        then (message_response 400
                ''maxDiscount must be a non-negative number and in between 0 and 100'', d)
      else
        (let dicountAllowed' =
               (if js_less (Val 0) (ap_maxDiscount req) \<and> js_less (ap_maxDiscount req) (Val 100)
                then 1 else 0 :: int)
         in case generateEntryCode 1 d of
              (Inl e, d1) \<Rightarrow>
                (\<lparr>status = 500,
                  body = [(''message'', JString ''Error adding product''),
                          (''error'', JString (err_message e))]\<rparr>, d1)
            | (Inr sku, d1) \<Rightarrow>
                (let insertId = products_next_id d1;
                     row = \<lparr>p_id = insertId, p_sku = sku,
                            productName = to_sql (ap_name req),
                            category = to_sql (ap_category req),
                            intQty = to_sql (ap_quantity req),
                            p_cost = to_sql (ap_cost req),
                            p_price = to_sql (ap_price req),
                            p_image = to_sql (ap_image req),
                            maxDiscount = to_sql (ap_maxDiscount req),
                            dicountAllowed = dicountAllowed'\<rparr>;
                     d2 = sent (Insert_products sku)
                            (d1\<lparr>products := products d1 @ [row],
                                products_next_id := insertId + 1\<rparr>)
                 in (\<lparr>status = 201,
                      body = [(''message'', JString ''Product added successfully''),
                              (''product'', JObject
                                 ([(''id'', JNumber (of_nat insertId)), (''sku'', JString sku)]
                                  @ json_prop ''name'' JString (ap_name req)
                                  @ json_prop ''category'' JString (ap_category req)
                                  @ json_prop ''quantity'' (\<lambda>q. JNumber (of_int q)) (ap_quantity req)
                                  @ json_prop ''cost'' JNumber (ap_cost req)
                                  @ json_prop ''price'' JNumber (ap_price req)
                                  @ json_prop ''image'' JString (ap_image req)
                                  @ json_prop ''maxDiscount'' JNumber (ap_maxDiscount req)
                                  @ [(''dicountAllowed'', JNumber (of_int dicountAllowed'))]))]\<rparr>,
                     d2))))"

record update_product_req =
  up_sku :: "string js"
  up_name :: "string js"
  up_category :: "string js"
  up_quantity :: "int js"
  up_price :: "rat js"
  up_cost :: "rat js"
  up_image :: "string js"
  up_maxDiscount :: "rat js"

text \<open>
  \<^verbatim>\<open>PUT /api/update-product\<close>. The handler keeps the whole pair that \<^verbatim>\<open>query\<close>
  resolves to in \<^verbatim>\<open>result\<close>, so \<^verbatim>\<open>result.affectedRows\<close> is \<^verbatim>\<open>undefined\<close>, the test
  \<^verbatim>\<open>=== 0\<close> is false, and the 404 branch is never taken.
\<close>

definition update_product :: "update_product_req \<Rightarrow> db \<Rightarrow> response \<times> db" where
  "update_product req d =
     (let missingFields =
            (if falsy_str (up_sku req) then [''sku''] else [])
            @ (if falsy_str (up_name req) then [''name''] else [])
            @ (if falsy_str (up_category req) then [''category''] else [])
      in if length missingFields > 0
         then (message_response 400 (''Missing required fields: '' @ join missingFields '', ''), d)
         else
           (let dicountAllowed' =
                  (if js_less (Val 0) (up_maxDiscount req) \<and> js_less (up_maxDiscount req) (Val 100)
                   then 1 else 0 :: int);
                d1 = sent (Update_products (js_concat_str (up_sku req)))
                       (d\<lparr>products :=
                            map (\<lambda>x. if Some (p_sku x) = to_sql (up_sku req)
                                      then x\<lparr>productName := to_sql (up_name req),
                                             category := to_sql (up_category req),
                                             intQty := to_sql (up_quantity req),
                                             p_price := to_sql (up_price req),
                                             p_cost := to_sql (up_cost req),
                                             p_image := (if falsy_str (up_image req) then None
                                                         else to_sql (up_image req)),
                                             maxDiscount := to_sql (up_maxDiscount req),
                                             dicountAllowed := dicountAllowed'\<rparr>
                                      else x)
                              (products d)\<rparr>)
            in (message_response 200 ''Product updated successfully.'', d1)))"

section \<open>Inventory: auto-update-inventory\<close>

record inv_entry =
  ie_sku :: "string js"
  ie_quantity :: "int js"

text \<open>
  \<^verbatim>\<open>UPDATE products SET intQty = intQty - ? WHERE sku = ? AND intQty >= ?\<close>: the new
  rows and the number of rows the statement matched. A \<^verbatim>\<open>NULL\<close> parameter or a \<^verbatim>\<open>NULL\<close>
  quantity matches nothing.
\<close>

definition deduct_matches :: "int option \<Rightarrow> string option \<Rightarrow> product \<Rightarrow> bool" where
  "deduct_matches quantity sku x =
     (case (quantity, sku, intQty x) of
        (Some q, Some s, Some v) \<Rightarrow> p_sku x = s \<and> v \<ge> q
      | _ \<Rightarrow> False)"

definition deduct_row :: "int option \<Rightarrow> string option \<Rightarrow> product \<Rightarrow> product" where
  "deduct_row quantity sku x =
     (if deduct_matches quantity sku x
      then (case (quantity, intQty x) of
              (Some q, Some v) \<Rightarrow> x\<lparr>intQty := Some (v - q)\<rparr>
            | _ \<Rightarrow> x)
      else x)"

definition affectedRows :: "int option \<Rightarrow> string option \<Rightarrow> product list \<Rightarrow> nat" where
  "affectedRows quantity sku rows = length (filter (deduct_matches quantity sku) rows)"

text \<open>The \<^verbatim>\<open>for ... of\<close> loop of the handler, one entry per step.\<close>

fun inventory_loop :: "inv_entry list \<Rightarrow> db \<Rightarrow> response \<times> db" where
  "inventory_loop [] d = (message_response 200 ''Products updated successfully.'', d)"
| "inventory_loop (e # es) d =
     (if js_less_eq (ie_quantity e) (Val 0)
      then (message_response 400
              (''Quantity must be greater than zero for SKU: '' @ js_concat_str (ie_sku e)), d)
      else
        (let quantity = to_sql (ie_quantity e);
             sku = to_sql (ie_sku e);
             affected = affectedRows quantity sku (products d);
             d1 = sent (Update_products_intQty quantity sku)
                    (d\<lparr>products := map (deduct_row quantity sku) (products d)\<rparr>)
         in if affected = 0
            then (message_response 404
                    (''Product with SKU '' @ js_concat_str (ie_sku e)
                       @ '' not found or insufficient stock.''), d1)
            else inventory_loop es d1))"

text \<open>
  \<^verbatim>\<open>PUT /api/auto-update-inventory\<close>; \<open>None\<close> is a \<^verbatim>\<open>products\<close> field that is not an
  array. The index in a "missing fields" message is the index in the filtered array.
\<close>

definition auto_update_inventory :: "inv_entry list option \<Rightarrow> db \<Rightarrow> response \<times> db" where
  "auto_update_inventory products' d =
     (case products' of
        None \<Rightarrow>
          (message_response 400
             (''Request must include an array of products with SKU and quantity.'' @ ''false''), d)
      | Some ps \<Rightarrow>
          if length ps = 0
          then (message_response 400
                  (''Request must include an array of products with SKU and quantity.'' @ ''true''), d)
          else
            (let missingProducts =
                   map (\<lambda>index. ''Product at index '' @ String_num (int index))
                     [0 ..< length (filter (\<lambda>p. falsy_str (ie_sku p) \<or> is_nullish (ie_quantity p)) ps)]
             in if length missingProducts > 0
                then (message_response 400
                        (''Missing required fields in products: '' @ join missingProducts '', ''), d)
                else inventory_loop ps d))"

section \<open>Purchase orders: create-purchase-order and delete-purchase-order\<close>

record supplier =
  s_code :: "string js"
  s_name :: "string js"

record order_item =
  oi_sku :: "string js"
  oi_productName :: "string js"
  oi_quantity :: "int js"
  oi_cost :: "rat js"

text \<open>What \<^verbatim>\<open>new Date()\<close> gives the handler: the clock is an input of the model.\<close>

record js_date =
  getFullYear :: int
  getMonth :: int
  getDate :: int

definition qdate :: "js_date \<Rightarrow> string" where
  "qdate date =
     (let year = getFullYear date;
          month = padStart (String_num (js_add (getMonth date) 1)) 2 CHR ''0'';
          day = padStart (String_num (getDate date)) 2 CHR ''0''
      in String_num year @ ''-'' @ month @ ''-'' @ day)"

definition orderItems :: "string \<Rightarrow> order_item list \<Rightarrow> purchaseorderdetails_row list" where
  "orderItems EntryCode orderDetails =
     map (\<lambda>item. \<lparr>poCode = EntryCode,
                   ProductCode = to_sql (oi_sku item),
                   pod_productName = to_sql (oi_productName item),
                   qty = to_sql (oi_quantity item),
                   pod_cost = to_sql (oi_cost item)\<rparr>) orderDetails"

definition purchase_order_failed :: "js_error \<Rightarrow> response" where
  "purchase_order_failed e =
     \<lparr>status = 500,
      body = [(''error'', JString (''An error occurred while creating the purchase order ''
                                    @ error_toString e))]\<rparr>"

text \<open>
  \<^verbatim>\<open>POST /api/create-purchase-order\<close>. The code is generated with code type 2; the
  parent row is inserted first, the lines in one statement after it and only when
  \<^verbatim>\<open>orderDetails\<close> is a non-empty array. No transaction is opened.
\<close>

definition create_purchase_order ::
    "supplier js \<Rightarrow> order_item list js \<Rightarrow> rat js \<Rightarrow> js_date \<Rightarrow> db \<Rightarrow> response \<times> db" where
  "create_purchase_order supplier' orderDetails totalCost date d =
     (case generateEntryCode 2 d of
        (Inl e, d1) \<Rightarrow> (purchase_order_failed e, d1)
      | (Inr EntryCode, d1) \<Rightarrow>
          (case read_of supplier' ''code'' of
             Inl e \<Rightarrow> (purchase_order_failed e, d1)
           | Inr supp \<Rightarrow>
               (let insertId = purchaseorder_next_id d1;
                    row = \<lparr>po_id = insertId, purchaseOrderCode = EntryCode,
                           SupplierCode = to_sql (s_code supp),
                           SupplierName = to_sql (s_name supp),
                           TotalCost = to_sql totalCost,
                           postDate = qdate date, docDate = qdate date\<rparr>;
                    d2 = sent (Insert_purchaseorder EntryCode)
                           (d1\<lparr>purchaseorder := purchaseorder d1 @ [row],
                               purchaseorder_next_id := insertId + 1\<rparr>);
                    d3 = (case orderDetails of
                            Val items \<Rightarrow>
                              if length items > 0
                              then sent (Insert_purchaseorderdetails EntryCode (length items))
                                     (d2\<lparr>purchaseorderdetails :=
                                           purchaseorderdetails d2 @ orderItems EntryCode items\<rparr>)
                              else d2
                          | _ \<Rightarrow> d2)
                in (\<lparr>status = 200,
                     body = [(''message'', JString ''Purchase order added successfully''),
                             (''purchaseOrderId'', JNumber (of_nat insertId))]\<rparr>, d3))))"

text \<open>\<^verbatim>\<open>POST /api/delete-purchase-order\<close>: the lines are deleted first, then the order.\<close>

definition delete_purchase_order :: "string js \<Rightarrow> db \<Rightarrow> response \<times> db" where
  "delete_purchase_order poCode' d =
     (case poCode' of
        Val c \<Rightarrow>
          if c = [] then (message_response 400 ''Missing purchase order code (poCode)'', d)
          else
            (let d1 = sent (Delete_purchaseorderdetails c)
                        (d\<lparr>purchaseorderdetails :=
                             filter (\<lambda>r. poCode r \<noteq> c) (purchaseorderdetails d)\<rparr>);
                 d2 = sent (Delete_purchaseorder c)
                        (d1\<lparr>purchaseorder :=
                              filter (\<lambda>r. purchaseOrderCode r \<noteq> c) (purchaseorder d1)\<rparr>)
             in (message_response 200 ''Purchase order and details deleted successfully.'', d2))
      | _ \<Rightarrow> (message_response 400 ''Missing purchase order code (poCode)'', d))"

text \<open>\<^verbatim>\<open>SELECT * FROM purchaseorderdetails WHERE poCode = ?\<close>\<close>

definition select_purchaseorderdetails :: "string \<Rightarrow> db \<Rightarrow> purchaseorderdetails_row list" where
  "select_purchaseorderdetails c d = filter (\<lambda>r. poCode r = c) (purchaseorderdetails d)"

section \<open>Invoices: save-invoice\<close>

record customer =
  c_code :: "string js"

record invoice_meta =
  inv_postDate :: "string js"
  inv_dueDate :: "string js"
  inv_paymentMethod :: "string js"
  inv_totalAmount :: "rat js"
  inv_discountAmount :: "rat js"
  inv_netTotal :: "rat js"

record cart_item =
  item_sku :: "string js"
  item_name :: "string js"
  item_quantity :: "int js"
  item_price :: "rat js"
  item_discount :: "rat js"

text \<open>
  Whether \<^verbatim>\<open>execute\<close> rejects the insert of the invoice row: one of the bind parameters
  taken from the request is \<^verbatim>\<open>undefined\<close>.
\<close>

definition invoice_rejected :: "customer \<Rightarrow> invoice_meta \<Rightarrow> bool" where
  "invoice_rejected cust meta =
     (c_code cust = Undefined \<or> inv_postDate meta = Undefined
      \<or> inv_dueDate meta = Undefined \<or> inv_paymentMethod meta = Undefined
      \<or> inv_totalAmount meta = Undefined \<or> inv_discountAmount meta = Undefined
      \<or> inv_netTotal meta = Undefined)"

text \<open>\<^verbatim>\<open>item.discount || 0\<close>\<close>

definition discount_or_0 :: "rat js \<Rightarrow> rat" where
  "discount_or_0 x = (if falsy_num x then 0 else (case x of Val v \<Rightarrow> v | _ \<Rightarrow> 0))"

text \<open>Whether \<^verbatim>\<open>execute\<close> rejects the insert of this item: one of its bind parameters is \<^verbatim>\<open>undefined\<close>.\<close>

definition cart_item_rejected :: "cart_item \<Rightarrow> bool" where
  "cart_item_rejected item =
     (item_sku item = Undefined \<or> item_name item = Undefined
      \<or> item_quantity item = Undefined \<or> item_price item = Undefined)"

definition cart_row :: "string \<Rightarrow> cart_item \<Rightarrow> cart_item_row" where
  "cart_row EntryCode item =
     \<lparr>invoice_code = EntryCode,
      ci_sku = to_sql (item_sku item),
      ci_name = to_sql (item_name item),
      ci_quantity = to_sql (item_quantity item),
      ci_price = to_sql (item_price item),
      ci_discount = discount_or_0 (item_discount item)\<rparr>"

text \<open>
  \<^verbatim>\<open>cartItems.map\<close> starts one \<^verbatim>\<open>execute\<close> per item without awaiting any of them, so
  every insert that is not rejected is sent, in order, also after a rejected one. The
  state returned is the one reached when the connection has run all of them.
\<close>

fun execute_cart_items :: "string \<Rightarrow> cart_item list \<Rightarrow> db \<Rightarrow> db" where
  "execute_cart_items EntryCode [] d = d"
| "execute_cart_items EntryCode (item # items) d =
     (if cart_item_rejected item then execute_cart_items EntryCode items d
      else execute_cart_items EntryCode items
             (sent (Insert_cart_items EntryCode)
                (d\<lparr>cart_items := cart_items d @ [cart_row EntryCode item]\<rparr>)))"

definition invoice_failed :: "js_error \<Rightarrow> response" where
  "invoice_failed e = message_response 500 (''Failed to save invoice. '' @ err_message e)"

text \<open>
  \<^verbatim>\<open>POST /api/save-invoice\<close>. The code is generated before the \<^verbatim>\<open>try\<close>: when that
  throws, nothing catches it and no response is sent (\<open>None\<close>). The \<^verbatim>\<open>catch\<close> block sends
  the 500 response and nothing else: its rollback is commented out.
\<close>

definition save_invoice ::
    "customer js \<Rightarrow> invoice_meta js \<Rightarrow> cart_item list js \<Rightarrow> db \<Rightarrow> response option \<times> db" where
  "save_invoice customer' invoice cartItems d =
     (case generateEntryCode 6 d of
        (Inl e, d1) \<Rightarrow> (None, d1)
      | (Inr EntryCode, d1) \<Rightarrow>
          (let d2 = sent BeginTransaction (d1\<lparr>in_transaction := True\<rparr>)
           in case read_of customer' ''code'' of
                Inl e \<Rightarrow> (Some (invoice_failed e), d2)
              | Inr cust \<Rightarrow>
                  (case read_of invoice ''postDate'' of
                     Inl e \<Rightarrow> (Some (invoice_failed e), d2)
                   | Inr meta \<Rightarrow>
                       if invoice_rejected cust meta
                       then (Some (invoice_failed bind_undefined_error), d2)
                       else
                         (let row = \<lparr>si_code = EntryCode,
                                     customer_id = to_sql (c_code cust),
                                     post_date = to_sql (inv_postDate meta),
                                     due_date = to_sql (inv_dueDate meta),
                                     payment_method = to_sql (inv_paymentMethod meta),
                                     total_amount = to_sql (inv_totalAmount meta),
                                     discount_amount = to_sql (inv_discountAmount meta),
                                     net_total = to_sql (inv_netTotal meta)\<rparr>;
                              d3 = sent (Insert_sales_invoices EntryCode)
                                     (d2\<lparr>sales_invoices := sales_invoices d2 @ [row]\<rparr>)
                          in case read_of cartItems ''map'' of
                               Inl e \<Rightarrow> (Some (invoice_failed e), d3)
                             | Inr items \<Rightarrow>
                                 (let d4 = execute_cart_items EntryCode items d3
                                  in if list_ex cart_item_rejected items
                                     then (Some (invoice_failed bind_undefined_error), d4)
                                     else (Some \<lparr>status = 200,
                                                 body = [(''message'', JString ''Invoice saved successfully!''),
                                                         (''invoiceCode'', JString EntryCode)]\<rparr>,
                                           sent Commit (d4\<lparr>in_transaction := False\<rparr>)))))))"

section \<open>Example data\<close>

definition example_codeformats :: "codeformat list" where
  "example_codeformats =
     [\<lparr>Code = 1, PreFix = ''SKU'', length_col = 4, nextValue = 41\<rparr>,
      \<lparr>Code = 2, PreFix = ''PO'', length_col = 2, nextValue = 99\<rparr>,
      \<lparr>Code = 6, PreFix = ''INV'', length_col = 3, nextValue = 7\<rparr>]"

definition example_product :: "nat \<Rightarrow> string \<Rightarrow> int \<Rightarrow> product" where
  "example_product i s q =
     \<lparr>p_id = i, p_sku = s, productName = Some ''Pen'', category = Some ''Office'',
      intQty = Some q, p_cost = Some 1, p_price = Some 2, p_image = None,
      maxDiscount = Some 0, dicountAllowed = 0\<rparr>"

definition example_db :: db where
  "example_db =
     \<lparr>codeformats = example_codeformats,
      products = [example_product 1 ''A'' 10, example_product 2 ''B'' 1],
      products_next_id = 3,
      purchaseorder = [], purchaseorder_next_id = 1,
      purchaseorderdetails = [],
      sales_invoices = [], cart_items = [],
      in_transaction = False, journal = []\<rparr>"

text \<open>
  Tables with one code format whose counter stands at \<open>2^53\<close> and just below it, and a
  table with two rows for the same code type.
\<close>

definition example_db_at_2_53 :: db where
  "example_db_at_2_53 =
     example_db\<lparr>codeformats :=
       [\<lparr>Code = 2, PreFix = ''B'', length_col = 4, nextValue = 9007199254740992\<rparr>]\<rparr>"

definition example_db_below_2_53 :: db where
  "example_db_below_2_53 =
     example_db\<lparr>codeformats :=
       [\<lparr>Code = 2, PreFix = ''B'', length_col = 4, nextValue = 9007199254740991\<rparr>]\<rparr>"

definition example_db_two_rows :: db where
  "example_db_two_rows =
     example_db\<lparr>codeformats :=
       [\<lparr>Code = 2, PreFix = ''PO'', length_col = 2, nextValue = 5\<rparr>,
        \<lparr>Code = 2, PreFix = ''PO'', length_col = 2, nextValue = 100\<rparr>]\<rparr>"

text \<open>The request entry \<^verbatim>\<open>{sku: s, quantity: q}\<close>.\<close>

definition entry :: "string \<times> int \<Rightarrow> inv_entry" where
  "entry p = \<lparr>ie_sku = Val (fst p), ie_quantity = Val (snd p)\<rparr>"

text \<open>The example database after two requests that each deduct 4 from \<open>A\<close>.\<close>

definition example_after_two_requests :: db where
  "example_after_two_requests =
     snd (auto_update_inventory (Some (map entry [(''A'', 4)]))
            (snd (auto_update_inventory (Some (map entry [(''A'', 4)])) example_db)))"

definition example_add_req :: "rat \<Rightarrow> add_product_req" where
  "example_add_req m =
     \<lparr>ap_name = Val ''Ink'', ap_category = Val ''Office'', ap_quantity = Val 3,
      ap_cost = Val 1, ap_price = Val 2, ap_image = Null, ap_maxDiscount = Val m\<rparr>"

definition example_update_req :: "rat \<Rightarrow> update_product_req" where
  "example_update_req m =
     \<lparr>up_sku = Val ''A'', up_name = Val ''Pen'', up_category = Val ''Office'',
      up_quantity = Val 9, up_price = Val 2, up_cost = Val 1, up_image = Undefined,
      up_maxDiscount = Val m\<rparr>"

definition example_supplier :: supplier where
  "example_supplier = \<lparr>s_code = Val ''S1'', s_name = Val ''Acme''\<rparr>"

definition example_order_items :: "order_item list" where
  "example_order_items =
     [\<lparr>oi_sku = Val ''A'', oi_productName = Val ''Pen'', oi_quantity = Val 2, oi_cost = Val 1\<rparr>,
      \<lparr>oi_sku = Val ''B'', oi_productName = Val ''Ink'', oi_quantity = Val 5, oi_cost = Val 3\<rparr>]"

definition example_date :: js_date where
  "example_date = \<lparr>getFullYear = 2024, getMonth = 0, getDate = 5\<rparr>"

text \<open>
  A database holding the order \<open>PO100\<close> with two lines, and one line of another order.
\<close>

definition example_po_db :: db where
  "example_po_db =
     example_db
       \<lparr>purchaseorder :=
          [\<lparr>po_id = 1, purchaseOrderCode = ''PO100'', SupplierCode = Some ''S1'',
            SupplierName = Some ''Acme'', TotalCost = Some 17,
            postDate = ''2024-01-05'', docDate = ''2024-01-05''\<rparr>],
        purchaseorder_next_id := 2,
        purchaseorderdetails :=
          [\<lparr>poCode = ''PO100'', ProductCode = Some ''A'', pod_productName = Some ''Pen'',
            qty = Some 2, pod_cost = Some 1\<rparr>,
           \<lparr>poCode = ''PO099'', ProductCode = Some ''B'', pod_productName = Some ''Ink'',
            qty = Some 1, pod_cost = Some 3\<rparr>,
           \<lparr>poCode = ''PO100'', ProductCode = Some ''B'', pod_productName = Some ''Ink'',
            qty = Some 5, pod_cost = Some 3\<rparr>]\<rparr>"

definition example_customer :: customer where
  "example_customer = \<lparr>c_code = Val ''C1''\<rparr>"

definition example_invoice :: invoice_meta where
  "example_invoice =
     \<lparr>inv_postDate = Val ''2024-01-05'', inv_dueDate = Val ''2024-02-05'',
      inv_paymentMethod = Val ''cash'', inv_totalAmount = Val 12,
      inv_discountAmount = Val 1, inv_netTotal = Val 11\<rparr>"

definition example_cart_item :: "string js \<Rightarrow> rat js \<Rightarrow> cart_item" where
  "example_cart_item s disc =
     \<lparr>item_sku = s, item_name = Val ''Pen'', item_quantity = Val 2, item_price = Val 2,
      item_discount = disc\<rparr>"

section \<open>Properties of the string primitives\<close>

declare digits_of.simps [simp del]

declare ulp.simps [simp del]

lemma digit_cases: "d < 10 \<Longrightarrow> d \<in> {0, 1, 2, 3, 4, 5, 6, 7, 8, 9 :: nat}"
  by auto

lemma digit_val_digit_char: "d < 10 \<Longrightarrow> digit_val (digit_char d) = d"
  by (drule digit_cases) (auto simp: digit_val_def digit_char_def)

lemma digit_char_not_minus: "d < 10 \<Longrightarrow> digit_char d \<noteq> CHR ''-''"
  by (drule digit_cases) (auto simp: digit_char_def)

lemma foldl_digits_of:
  "foldl (\<lambda>a c. 10 * a + digit_val c) a (digits_of n) = a * 10 ^ length (digits_of n) + n"
proof (induction n arbitrary: a rule: digits_of.induct)
  case (1 n)
  show ?case
  proof (cases "n < 10")
    case True
    then show ?thesis
      by (subst digits_of.simps, subst (2) digits_of.simps) (simp add: digit_val_digit_char)
  next
    case False
    have "foldl (\<lambda>a c. 10 * a + digit_val c) a (digits_of n)
        = 10 * foldl (\<lambda>a c. 10 * a + digit_val c) a (digits_of (n div 10)) + n mod 10"
      using False by (subst digits_of.simps) (simp add: digit_val_digit_char)
    also have "\<dots> = 10 * (a * 10 ^ length (digits_of (n div 10)) + n div 10) + n mod 10"
      using 1 False by simp
    also have "\<dots> = a * 10 ^ length (digits_of n) + n"
      using False by (subst (2) digits_of.simps) (simp add: algebra_simps)
    finally show ?thesis .
  qed
qed

lemma parse_digits_digits_of: "parse_digits (digits_of n) = n"
  by (simp add: parse_digits_def foldl_digits_of)

lemma digits_of_no_minus: "CHR ''-'' \<notin> set (digits_of n)"
proof (induction n rule: digits_of.induct)
  case (1 n)
  show ?case
  proof (cases "n < 10")
    case True
    then show ?thesis
      using digit_char_not_minus[of n] by (subst digits_of.simps) auto
  next
    case False
    then show ?thesis
      using 1 digit_char_not_minus[of "n mod 10"] by (subst digits_of.simps) auto
  qed
qed

lemma parse_digits_zeros: "parse_digits (replicate k CHR ''0'' @ s) = parse_digits s"
proof -
  have "foldl (\<lambda>a c. 10 * a + digit_val c) 0 (replicate k CHR ''0'') = 0"
    by (induction k) (simp_all add: digit_val_def)
  then show ?thesis by (simp add: parse_digits_def)
qed

lemma dropWhile_zeros_minus:
  "dropWhile (\<lambda>c. c = CHR ''0'') (replicate k CHR ''0'' @ CHR ''-'' # s) = CHR ''-'' # s"
  by (induction k) simp_all

lemma dropWhile_zeros: "dropWhile (\<lambda>c. c = CHR ''0'') (replicate k CHR ''0'' @ s) = dropWhile (\<lambda>c. c = CHR ''0'') s"
  by (induction k) simp_all

lemma parse_number_digits:
  assumes "CHR ''-'' \<notin> set s"
  shows "parse_number (replicate k CHR ''0'' @ s) = int (parse_digits s)"
proof (cases "dropWhile (\<lambda>c. c = CHR ''0'') s")
  case Nil
  show ?thesis
    unfolding parse_number_def dropWhile_zeros Nil by (simp add: parse_digits_zeros)
next
  case (Cons c r)
  have "c \<in> set (dropWhile (\<lambda>c. c = CHR ''0'') s)"
    by (simp add: Cons)
  then have "c \<in> set s"
    by (rule set_dropWhileD)
  with assms have "c \<noteq> CHR ''-''"
    by blast
  then show ?thesis
    unfolding parse_number_def dropWhile_zeros Cons by (simp add: parse_digits_zeros)
qed

lemma parse_number_padStart: "parse_number (padStart (decimal i) n CHR ''0'') = i"
proof (cases "i < 0")
  case True
  then show ?thesis
    by (simp add: padStart_def decimal_def parse_number_def dropWhile_zeros_minus
        parse_digits_digits_of)
next
  case False
  then show ?thesis
    by (simp add: padStart_def decimal_def parse_number_digits digits_of_no_minus
        parse_digits_digits_of)
qed

lemma padStart_short: "int (length s) \<le> n \<Longrightarrow>
   padStart s n c = replicate (nat n - length s) c @ s \<and> length (padStart s n c) = nat n"
  by (auto simp: padStart_def)

lemma padStart_long: "n < int (length s) \<Longrightarrow> padStart s n c = s"
  by (auto simp: padStart_def)

lemma filter_map_update:
  assumes "\<And>x. P (f x) = P x"
  shows "filter P (map (\<lambda>x. if P x then f x else x) xs) = map f (filter P xs)"
  using assms by (induction xs) auto

section \<open>Numbers that JavaScript holds exactly\<close>

text \<open>
  Up to \<open>2^53\<close> in absolute value an integer is a double, is printed with all its
  digits and reaches the database unchanged; below \<open>2^53\<close> adding 1 is exact.
\<close>

lemma nearest_double_exact: "a \<le> 9007199254740992 \<Longrightarrow> nearest_double a = a"
proof (cases "a < 9007199254740992")
  case True
  then have "ulp a = 1"
    by (subst ulp.simps) simp
  then show ?thesis
    by (simp add: nearest_double_def)
next
  case False
  assume "a \<le> 9007199254740992"
  with False have a: "a = 9007199254740992"
    by simp
  have "ulp 4503599627370496 = 1"
    by (subst ulp.simps) simp
  then have "ulp a = 2"
    unfolding a by (subst ulp.simps) simp
  then show ?thesis
    by (simp add: nearest_double_def a)
qed

lemma nat_in_exact_range:
  assumes "- 9007199254740992 \<le> x" and "x \<le> 9007199254740992"
  shows "nat x \<le> 9007199254740992" and "nat (- x) \<le> 9007199254740992"
  using assms by linarith+

lemma js_number_exact:
  assumes "- 9007199254740992 \<le> x" and "x \<le> 9007199254740992"
  shows "js_number x = x"
  using nat_in_exact_range[OF assms]
  by (simp only: js_number_def nearest_double_exact) simp

lemma String_num_exact:
  assumes "- 9007199254740992 \<le> x" and "x \<le> 9007199254740992"
  shows "String_num x = decimal x"
  using nat_in_exact_range[OF assms]
  by (simp only: String_num_def decimal_def number_text_def if_True)

lemma sql_number_exact:
  assumes "- 9007199254740992 \<le> x" and "x \<le> 9007199254740992"
  shows "sql_number x = x"
  using nat_in_exact_range[OF assms]
  by (simp only: sql_number_def shortest_decimal_def if_True) simp

lemma js_successor_exact:
  assumes "- 9007199254740992 \<le> v" and "v < 9007199254740992"
  shows "js_add (js_number v) 1 = v + 1"
  using assms by (simp add: js_add_def js_number_exact)

lemma generateEntryCode_found:
  assumes "filter (\<lambda>r. Code r = codeType) (codeformats d) = r # rs"
  shows "generateEntryCode codeType d =
    (Inr (PreFix r @ padStart (String_num (js_add (js_number (nextValue r)) 1)) (length_col r) CHR ''0''),
     d\<lparr>codeformats :=
          map (\<lambda>x. if Code x = codeType
                    then x\<lparr>nextValue := sql_number (js_add (js_number (nextValue r)) 1)\<rparr> else x)
            (codeformats d),
       journal := journal d @ [Select_codeformats codeType,
                               Update_codeformats_nextValue (js_add (js_number (nextValue r)) 1)
                                 codeType]\<rparr>)"
  using assms by (simp add: generateEntryCode_def sent_def Let_def)

lemma generateEntryCode_found_exact:
  assumes "filter (\<lambda>r. Code r = codeType) (codeformats d) = r # rs"
    and "- 9007199254740992 \<le> nextValue r" and "nextValue r < 9007199254740992"
  shows "generateEntryCode codeType d =
    (Inr (PreFix r @ padStart (decimal (nextValue r + 1)) (length_col r) CHR ''0''),
     d\<lparr>codeformats := map (\<lambda>x. if Code x = codeType then x\<lparr>nextValue := nextValue r + 1\<rparr> else x)
                          (codeformats d),
       journal := journal d @ [Select_codeformats codeType,
                               Update_codeformats_nextValue (nextValue r + 1) codeType]\<rparr>)"
  using assms(2,3)
  by (simp add: generateEntryCode_found[OF assms(1)] js_successor_exact String_num_exact
      sql_number_exact)

lemma generateEntryCode_missing:
  assumes "filter (\<lambda>r. Code r = codeType) (codeformats d) = []"
  shows "generateEntryCode codeType d =
    (Inl (undefined_read ''nextValue''), d\<lparr>journal := journal d @ [Select_codeformats codeType]\<rparr>)"
  using assms by (simp add: generateEntryCode_def sent_def Let_def)

lemma filter_after_generate:
  assumes "filter (\<lambda>r. Code r = codeType) (codeformats d) = r # rs"
    and "- 9007199254740992 \<le> nextValue r" and "nextValue r < 9007199254740992"
  shows "filter (\<lambda>r. Code r = codeType) (codeformats (snd (generateEntryCode codeType d)))
         = r\<lparr>nextValue := nextValue r + 1\<rparr> # map (\<lambda>x. x\<lparr>nextValue := nextValue r + 1\<rparr>) rs"
proof -
  have "filter (\<lambda>r. Code r = codeType)
          (map (\<lambda>x. if Code x = codeType then x\<lparr>nextValue := nextValue r + 1\<rparr> else x) (codeformats d))
        = map (\<lambda>x. x\<lparr>nextValue := nextValue r + 1\<rparr>) (filter (\<lambda>r. Code r = codeType) (codeformats d))"
    by (rule filter_map_update) simp
  then show ?thesis
    using assms(1) by (simp add: generateEntryCode_found_exact[OF assms])
qed

text \<open>At \<open>2^53\<close> the sum with 1 is rounded back to \<open>2^53\<close>.\<close>

lemma js_add_at_2_53:
  "js_add (js_number 9007199254740992) 1 = 9007199254740992"
  "js_add (js_number 9007199254740991) 1 = 9007199254740992"
  by (simp_all add: js_add_def js_number_def nearest_double_def ulp.simps Let_def)

lemma String_num_2_53: "String_num 9007199254740992 = ''9007199254740992''"
  by (simp add: String_num_def number_text_def digits_of.simps digit_char_def)

lemma sql_number_2_53: "sql_number 9007199254740992 = 9007199254740992"
  by (simp add: sql_number_exact)

section \<open>Basic facts about the model and the example data\<close>

lemma js_less_Val: "js_less (Val a) (Val b) = (a < b)"
  by (simp add: js_less_def ToNumber_def)

lemma js_less_eq_Val: "js_less_eq (Val a) (Val b) = (a \<le> b)"
  by (simp add: js_less_eq_def ToNumber_def)

lemma generateEntryCode_products: "products (snd (generateEntryCode c d)) = products d"
  by (cases "filter (\<lambda>x. Code x = c) (codeformats d)")
     (simp_all add: generateEntryCode_def sent_def Let_def)

lemma products_journal: "products (d\<lparr>journal := j\<rparr>) = products d"
  by simp

text \<open>The example table: code type 2 stands at 99 with a pad length of 2, so the next code widens.\<close>

lemma example_row_2:
  "filter (\<lambda>x. Code x = 2) (codeformats example_db)
     = [\<lparr>Code = 2, PreFix = ''PO'', length_col = 2, nextValue = 99\<rparr>]"
  by (simp add: example_db_def example_codeformats_def)

lemma String_num_100: "String_num 100 = ''100''"
  by code_simp

lemma example_row_1:
  "filter (\<lambda>x. Code x = 1) (codeformats example_db)
     = [\<lparr>Code = 1, PreFix = ''SKU'', length_col = 4, nextValue = 41\<rparr>]"
  by (simp add: example_db_def example_codeformats_def)

lemma String_num_42: "String_num 42 = ''42''"
  by code_simp

lemma example_row_6:
  "filter (\<lambda>x. Code x = 6) (codeformats example_db)
     = [\<lparr>Code = 6, PreFix = ''INV'', length_col = 3, nextValue = 7\<rparr>]"
  by (simp add: example_db_def example_codeformats_def)

lemma example_code_INV008:
  "''INV008'' = PreFix \<lparr>Code = 6, PreFix = ''INV'', length_col = 3, nextValue = 7\<rparr>
     @ padStart (String_num (js_add (js_number
           (nextValue \<lparr>Code = 6, PreFix = ''INV'', length_col = 3, nextValue = 7\<rparr>)) 1))
         (length_col \<lparr>Code = 6, PreFix = ''INV'', length_col = 3, nextValue = 7\<rparr>) CHR ''0''"
  by code_simp

section \<open>The code generator\<close>

text \<open>
  Claim C1, as stated, has every call store and show \<open>nextValue + 1\<close>. The program adds
  on doubles. In the example the counter stands at \<open>2^53 = 9007199254740992\<close>: the call
  returns a code that shows \<open>9007199254740992\<close> and the row holds \<open>9007199254740992\<close>
  afterwards, which is not the value before plus 1.
\<close>

theorem generateEntryCode_sum_rounded_counterexample:
  "map nextValue (codeformats example_db_at_2_53) = [9007199254740992]
   \<and> fst (generateEntryCode 2 example_db_at_2_53) = Inr ''B9007199254740992''
   \<and> map nextValue (codeformats (snd (generateEntryCode 2 example_db_at_2_53)))
       = [9007199254740992]
   \<and> nextValue (hd (codeformats (snd (generateEntryCode 2 example_db_at_2_53))))
       \<noteq> nextValue (hd (codeformats example_db_at_2_53)) + 1"
proof -
  have rows: "codeformats example_db_at_2_53
      = [\<lparr>Code = 2, PreFix = ''B'', length_col = 4, nextValue = 9007199254740992\<rparr>]"
    by (simp add: example_db_at_2_53_def)
  then have row: "filter (\<lambda>x. Code x = 2) (codeformats example_db_at_2_53)
      = [\<lparr>Code = 2, PreFix = ''B'', length_col = 4, nextValue = 9007199254740992\<rparr>]"
    by simp
  have run: "generateEntryCode 2 example_db_at_2_53 =
      (Inr ''B9007199254740992'',
       example_db_at_2_53
         \<lparr>codeformats :=
            [\<lparr>Code = 2, PreFix = ''B'', length_col = 4, nextValue = 9007199254740992\<rparr>],
          journal := journal example_db_at_2_53
            @ [Select_codeformats 2, Update_codeformats_nextValue 9007199254740992 2]\<rparr>)"
    unfolding generateEntryCode_found[OF row] rows
    by (simp add: js_add_at_2_53 String_num_2_53 sql_number_2_53 padStart_def)
  show ?thesis
    unfolding run by (simp add: rows)
qed

text \<open>
  Claim C1, amended. When the table has a row for the code type, \<open>generateEntryCode\<close>
  reads the first such row, computes \<open>nextValue + 1\<close> as a sum of JavaScript numbers,
  writes the new value back (the only change to the tables) and returns the prefix
  followed by the new value as \<^verbatim>\<open>String\<close> prints it, padded with zeros on the left to
  \<open>length\<close> characters. For a counter from \<open>-2^53\<close> to \<open>2^53 - 1\<close> the sum is exact: the
  new value, the value stored and the number shown by the padded part are all
  \<open>nextValue + 1\<close>, printed with all its digits. When the printed value has more
  characters than \<open>length\<close>, nothing is cut and nothing fails: the code is the prefix
  followed by the whole printed value, and is wider than \<open>length\<close>.
\<close>

theorem generateEntryCode_reads_adds_formats:
  assumes "filter (\<lambda>x. Code x = codeType) (codeformats d) = r # rs"
    and "newValue = js_add (js_number (nextValue r)) 1"
  shows "generateEntryCode codeType d =
           (Inr (PreFix r @ padStart (String_num newValue) (length_col r) CHR ''0''),
            d\<lparr>codeformats :=
                 map (\<lambda>x. if Code x = codeType then x\<lparr>nextValue := sql_number newValue\<rparr> else x)
                   (codeformats d),
              journal := journal d @ [Select_codeformats codeType,
                                      Update_codeformats_nextValue newValue codeType]\<rparr>)
       \<and> (- 9007199254740992 \<le> nextValue r \<and> nextValue r < 9007199254740992 \<longrightarrow>
            newValue = nextValue r + 1
            \<and> sql_number newValue = nextValue r + 1
            \<and> String_num newValue = decimal (nextValue r + 1)
            \<and> parse_number (padStart (String_num newValue) (length_col r) CHR ''0'')
                = nextValue r + 1)
       \<and> (int (length (String_num newValue)) \<le> length_col r \<longrightarrow>
            padStart (String_num newValue) (length_col r) CHR ''0''
              = replicate (nat (length_col r) - length (String_num newValue)) CHR ''0''
                @ String_num newValue
            \<and> int (length (padStart (String_num newValue) (length_col r) CHR ''0''))
                = length_col r)
       \<and> (length_col r < int (length (String_num newValue)) \<longrightarrow>
            padStart (String_num newValue) (length_col r) CHR ''0'' = String_num newValue
            \<and> length_col r
                < int (length (padStart (String_num newValue) (length_col r) CHR ''0'')))"
proof (intro conjI impI)
  show "generateEntryCode codeType d =
           (Inr (PreFix r @ padStart (String_num newValue) (length_col r) CHR ''0''),
            d\<lparr>codeformats :=
                 map (\<lambda>x. if Code x = codeType then x\<lparr>nextValue := sql_number newValue\<rparr> else x)
                   (codeformats d),
              journal := journal d @ [Select_codeformats codeType,
                                      Update_codeformats_nextValue newValue codeType]\<rparr>)"
    unfolding assms(2) by (rule generateEntryCode_found[OF assms(1)])
next
  assume range: "- 9007199254740992 \<le> nextValue r \<and> nextValue r < 9007199254740992"
  then show exact: "newValue = nextValue r + 1"
    unfolding assms(2) by (simp add: js_successor_exact)
  from range show "sql_number newValue = nextValue r + 1"
    unfolding exact by (simp add: sql_number_exact)
  from range show digits: "String_num newValue = decimal (nextValue r + 1)"
    unfolding exact by (simp add: String_num_exact)
  show "parse_number (padStart (String_num newValue) (length_col r) CHR ''0'') = nextValue r + 1"
    unfolding digits by (rule parse_number_padStart)
next
  assume short: "int (length (String_num newValue)) \<le> length_col r"
  show "padStart (String_num newValue) (length_col r) CHR ''0''
              = replicate (nat (length_col r) - length (String_num newValue)) CHR ''0''
                @ String_num newValue"
    using padStart_short[OF short] by simp
  show "int (length (padStart (String_num newValue) (length_col r) CHR ''0'')) = length_col r"
    using padStart_short[OF short, of "CHR ''0''"] short by simp
next
  assume long: "length_col r < int (length (String_num newValue))"
  show "padStart (String_num newValue) (length_col r) CHR ''0'' = String_num newValue"
    by (rule padStart_long[OF long])
  then show "length_col r
                < int (length (padStart (String_num newValue) (length_col r) CHR ''0''))"
    using long by simp
qed

lemma example_next_numbers:
  "100 = js_add (js_number (nextValue \<lparr>Code = 2, PreFix = ''PO'', length_col = 2, nextValue = 99\<rparr>)) 1"
  "42 = js_add (js_number (nextValue \<lparr>Code = 1, PreFix = ''SKU'', length_col = 4, nextValue = 41\<rparr>)) 1"
  by code_simp+

theorem generateEntryCode_reads_adds_formats_witness:
  "filter (\<lambda>x. Code x = 2) (codeformats example_db)
     = [\<lparr>Code = 2, PreFix = ''PO'', length_col = 2, nextValue = 99\<rparr>]
   \<and> fst (generateEntryCode 2 example_db) = Inr ''PO100''
   \<and> map nextValue (codeformats (snd (generateEntryCode 2 example_db))) = [41, 100, 7]
   \<and> filter (\<lambda>x. Code x = 1) (codeformats example_db)
     = [\<lparr>Code = 1, PreFix = ''SKU'', length_col = 4, nextValue = 41\<rparr>]
   \<and> fst (generateEntryCode 1 example_db) = Inr ''SKU0042''
   \<and> map nextValue (codeformats (snd (generateEntryCode 1 example_db))) = [42, 99, 7]"
proof -
  have wide: "fst (generateEntryCode 2 example_db) = Inr ''PO100''
      \<and> map nextValue (codeformats (snd (generateEntryCode 2 example_db))) = [41, 100, 7]"
    using generateEntryCode_reads_adds_formats[OF example_row_2 example_next_numbers(1)]
    by (simp add: String_num_100 sql_number_exact padStart_def example_db_def
        example_codeformats_def)
  have padded: "fst (generateEntryCode 1 example_db) = Inr ''SKU0042''
      \<and> map nextValue (codeformats (snd (generateEntryCode 1 example_db))) = [42, 99, 7]"
    using generateEntryCode_reads_adds_formats[OF example_row_1 example_next_numbers(2)]
    by (simp add: String_num_42 sql_number_exact padStart_def numeral_2_eq_2 example_db_def
        example_codeformats_def)
  from wide padded show ?thesis
    using example_row_1 example_row_2 by blast
qed

text \<open>
  Claim C3, as stated, asks for a \<open>NotFoundError\<close> when the code type has no row. The
  function has no such check: it reads \<^verbatim>\<open>rows[0].nextValue\<close> of an empty result, and
  what the caller gets is the TypeError of that read.
\<close>

theorem generateEntryCode_missing_row_counterexample:
  "map_sum err_name id (fst (generateEntryCode 3 example_db)) = Inl ''TypeError''
   \<and> map_sum err_name id (fst (generateEntryCode 3 example_db)) \<noteq> Inl ''NotFoundError''"
  by (simp add: generateEntryCode_def example_db_def example_codeformats_def undefined_read_def Let_def)

text \<open>
  Claim C3, amended. With no row for the code type, \<open>generateEntryCode\<close> fails with the
  TypeError of reading \<^verbatim>\<open>nextValue\<close> of \<^verbatim>\<open>undefined\<close>, after the \<^verbatim>\<open>SELECT\<close> and
  before any write; with a row, it returns a string.
\<close>

theorem generateEntryCode_missing_row_TypeError:
  "(filter (\<lambda>x. Code x = codeType) (codeformats d) = [] \<longrightarrow>
      generateEntryCode codeType d
        = (Inl (undefined_read ''nextValue''),
           d\<lparr>journal := journal d @ [Select_codeformats codeType]\<rparr>)
      \<and> err_name (undefined_read ''nextValue'') = ''TypeError'')
   \<and> (filter (\<lambda>x. Code x = codeType) (codeformats d) \<noteq> [] \<longrightarrow>
        (\<exists>code. fst (generateEntryCode codeType d) = Inr code))"
proof (intro conjI impI)
  assume "filter (\<lambda>x. Code x = codeType) (codeformats d) = []"
  then show "generateEntryCode codeType d
        = (Inl (undefined_read ''nextValue''),
           d\<lparr>journal := journal d @ [Select_codeformats codeType]\<rparr>)"
    by (rule generateEntryCode_missing)
  show "err_name (undefined_read ''nextValue'') = ''TypeError''"
    by (simp add: undefined_read_def)
next
  assume "filter (\<lambda>x. Code x = codeType) (codeformats d) \<noteq> []"
  then obtain r rs where "filter (\<lambda>x. Code x = codeType) (codeformats d) = r # rs"
    by (cases "filter (\<lambda>x. Code x = codeType) (codeformats d)") auto
  then show "\<exists>code. fst (generateEntryCode codeType d) = Inr code"
    by (simp add: generateEntryCode_found)
qed

theorem generateEntryCode_missing_row_TypeError_witness:
  "filter (\<lambda>x. Code x = 3) (codeformats example_db) = []
   \<and> map_sum err_name id (fst (generateEntryCode 3 example_db)) = Inl ''TypeError''
   \<and> filter (\<lambda>x. Code x = 2) (codeformats example_db) \<noteq> []
   \<and> (\<exists>code. fst (generateEntryCode 2 example_db) = Inr code)"
proof -
  have none: "filter (\<lambda>x. Code x = 3) (codeformats example_db) = []"
    by (simp add: example_db_def example_codeformats_def)
  have some: "filter (\<lambda>x. Code x = 2) (codeformats example_db) \<noteq> []"
    by (simp add: example_row_2)
  from generateEntryCode_missing_row_TypeError[of 3 example_db] none
  have "map_sum err_name id (fst (generateEntryCode 3 example_db)) = Inl ''TypeError''"
    by simp
  moreover from generateEntryCode_missing_row_TypeError[of 2 example_db] some
  have "\<exists>code. fst (generateEntryCode 2 example_db) = Inr code"
    by blast
  ultimately show ?thesis using none some by blast
qed

section \<open>Calls in sequence\<close>

lemma codes_from_Suc:
  "codes_from r (Suc n) =
     (PreFix r @ padStart (decimal (nextValue r + 1)) (length_col r) CHR ''0'')
     # codes_from (r\<lparr>nextValue := nextValue r + 1\<rparr>) n"
proof -
  have "[0 ..< Suc n] = 0 # map Suc [0 ..< n]"
    by (simp add: upt_conv_Cons map_Suc_upt del: upt_Suc)
  then show ?thesis
    by (simp add: codes_from_def o_def ac_simps del: upt_Suc)
qed

lemma generate_sequentially_run:
  assumes "filter (\<lambda>x. Code x = codeType) (codeformats d) = r # rs"
    and "- 9007199254740992 \<le> nextValue r"
    and "nextValue r + int n \<le> 9007199254740992"
  shows "\<exists>d'. generate_sequentially n codeType d = (Inr (codes_from r n), d')
           \<and> filter (\<lambda>x. Code x = codeType) (codeformats d')
               = (if n = 0 then r # rs
                  else map (\<lambda>x. x\<lparr>nextValue := nextValue r + int n\<rparr>) (r # rs))"
  using assms
proof (induction n arbitrary: d r rs)
  case 0
  then show ?case by (simp add: codes_from_def)
next
  case (Suc n)
  let ?r1 = "r\<lparr>nextValue := nextValue r + 1\<rparr>"
  let ?rs1 = "map (\<lambda>x. x\<lparr>nextValue := nextValue r + 1\<rparr>) rs"
  from Suc.prems have below: "nextValue r < 9007199254740992"
    by simp
  obtain d1 where d1: "generateEntryCode codeType d =
      (Inr (PreFix r @ padStart (decimal (nextValue r + 1)) (length_col r) CHR ''0''), d1)"
    and d1': "d1 = snd (generateEntryCode codeType d)"
    using generateEntryCode_found_exact[OF Suc.prems(1,2) below] by simp
  have f1: "filter (\<lambda>x. Code x = codeType) (codeformats d1) = ?r1 # ?rs1"
    using filter_after_generate[OF Suc.prems(1,2) below] d1' by simp
  have lo: "- 9007199254740992 \<le> nextValue ?r1"
    using Suc.prems(2) by simp
  have hi: "nextValue ?r1 + int n \<le> 9007199254740992"
    using Suc.prems(3) by simp
  from Suc.IH[OF f1 lo hi] obtain d2 where
    run: "generate_sequentially n codeType d1 = (Inr (codes_from ?r1 n), d2)"
    and f2: "filter (\<lambda>x. Code x = codeType) (codeformats d2)
               = (if n = 0 then ?r1 # ?rs1
                  else map (\<lambda>x. x\<lparr>nextValue := nextValue ?r1 + int n\<rparr>) (?r1 # ?rs1))"
    by blast
  have "generate_sequentially (Suc n) codeType d = (Inr (codes_from r (Suc n)), d2)"
    by (simp add: d1 run codes_from_Suc)
  moreover have "filter (\<lambda>x. Code x = codeType) (codeformats d2)
      = map (\<lambda>x. x\<lparr>nextValue := nextValue r + int (Suc n)\<rparr>) (r # rs)"
    unfolding f2 by (simp add: o_def ac_simps)
  ultimately show ?case by simp
qed

lemma distinct_codes_from: "distinct (codes_from r n)"
proof -
  have "inj_on (\<lambda>k. PreFix r @ padStart (decimal (nextValue r + 1 + int k)) (length_col r) CHR ''0'')
          (set [0 ..< n])"
  proof (rule inj_on_inverseI)
    fix k
    show "nat (parse_number (drop (length (PreFix r))
             (PreFix r @ padStart (decimal (nextValue r + 1 + int k)) (length_col r) CHR ''0''))
            - (nextValue r + 1)) = k"
      by (simp add: parse_number_padStart)
  qed
  then show ?thesis
    by (simp add: codes_from_def distinct_map)
qed

text \<open>
  Claim C2, as stated, is about every row. Two examples where it fails. With the counter
  at \<open>2^53 - 1\<close>, two calls return the same code, and the counter stands at \<open>2^53\<close>
  after the first and after the second. With two rows for the code type, holding 5 and
  100, one call writes 6 to both: the counter of the second row goes down.
\<close>

theorem generate_sequentially_counterexample:
  "fst (generate_sequentially 2 2 example_db_below_2_53)
     = Inr [''B9007199254740992'', ''B9007199254740992'']
   \<and> \<not> distinct (projr (fst (generate_sequentially 2 2 example_db_below_2_53)))
   \<and> map nextValue (codeformats (snd (generate_sequentially 1 2 example_db_below_2_53)))
       = [9007199254740992]
   \<and> map nextValue (codeformats (snd (generate_sequentially 2 2 example_db_below_2_53)))
       = [9007199254740992]
   \<and> map nextValue (codeformats example_db_two_rows) = [5, 100]
   \<and> map nextValue (codeformats (snd (generateEntryCode 2 example_db_two_rows))) = [6, 6]"
proof -
  let ?row = "\<lambda>v. \<lparr>Code = 2, PreFix = ''B'', length_col = 4, nextValue = v\<rparr>"
  let ?d1 = "example_db_below_2_53
         \<lparr>codeformats := [?row 9007199254740992],
          journal := journal example_db_below_2_53
            @ [Select_codeformats 2, Update_codeformats_nextValue 9007199254740992 2]\<rparr>"
  let ?d2 = "?d1
         \<lparr>codeformats := [?row 9007199254740992],
          journal := journal ?d1
            @ [Select_codeformats 2, Update_codeformats_nextValue 9007199254740992 2]\<rparr>"
  have rows0: "codeformats example_db_below_2_53 = [?row 9007199254740991]"
    by (simp add: example_db_below_2_53_def)
  then have row0: "filter (\<lambda>x. Code x = 2) (codeformats example_db_below_2_53)
      = [?row 9007199254740991]"
    by simp
  have run1: "generateEntryCode 2 example_db_below_2_53 = (Inr ''B9007199254740992'', ?d1)"
    unfolding generateEntryCode_found[OF row0] rows0
    by (simp add: js_add_at_2_53 String_num_2_53 sql_number_2_53 padStart_def)
  have row1: "filter (\<lambda>x. Code x = 2) (codeformats ?d1) = [?row 9007199254740992]"
    by simp
  have run2: "generateEntryCode 2 ?d1 = (Inr ''B9007199254740992'', ?d2)"
    unfolding generateEntryCode_found[OF row1]
    by (simp add: js_add_at_2_53 String_num_2_53 sql_number_2_53 padStart_def)
  have one: "generate_sequentially 1 2 example_db_below_2_53 = (Inr [''B9007199254740992''], ?d1)"
    unfolding One_nat_def generate_sequentially.simps run1 by simp
  have two: "generate_sequentially 2 2 example_db_below_2_53
      = (Inr [''B9007199254740992'', ''B9007199254740992''], ?d2)"
    unfolding numeral_2_eq_2 generate_sequentially.simps run1 by (simp add: run2)
  have rows: "map nextValue (codeformats example_db_two_rows) = [5, 100]"
    "map nextValue (codeformats (snd (generateEntryCode 2 example_db_two_rows))) = [6, 6]"
    by code_simp+
  show ?thesis
    unfolding one two by (simp add: rows)
qed

text \<open>
  Claim C2, amended. Take a code type with one row, a counter \<open>nextValue\<close> of at least
  \<open>-2^53\<close> and a number \<open>n\<close> of calls with \<open>nextValue + n\<close> at most \<open>2^53\<close>. Then \<open>n\<close>
  calls made one after the other all succeed; the \<open>k\<close>-th code (counting from 0) is built
  from \<open>nextValue + 1 + k\<close> with all its digits; after \<open>k\<close> of the calls the row holds
  \<open>nextValue + k\<close>, so each call moves the stored counter up by exactly 1 and never down;
  the codes are pairwise distinct; and the numbers they show after the prefix are
  \<open>nextValue + 1, nextValue + 2, ...\<close> with no gap.
\<close>

theorem generate_sequentially_distinct_increasing:
  assumes "filter (\<lambda>x. Code x = codeType) (codeformats d) = [r]"
    and "- 9007199254740992 \<le> nextValue r"
    and "nextValue r + int n \<le> 9007199254740992"
  shows "(\<exists>d'. generate_sequentially n codeType d =
             (Inr (map (\<lambda>k. PreFix r @ padStart (decimal (nextValue r + 1 + int k))
                                        (length_col r) CHR ''0'') [0 ..< n]), d'))
       \<and> (\<forall>k \<le> n. filter (\<lambda>x. Code x = codeType)
                      (codeformats (snd (generate_sequentially k codeType d)))
                    = [r\<lparr>nextValue := nextValue r + int k\<rparr>])
       \<and> distinct (map (\<lambda>k. PreFix r @ padStart (decimal (nextValue r + 1 + int k))
                                        (length_col r) CHR ''0'') [0 ..< n])
       \<and> map (\<lambda>c. parse_number (drop (length (PreFix r)) c))
               (map (\<lambda>k. PreFix r @ padStart (decimal (nextValue r + 1 + int k))
                                        (length_col r) CHR ''0'') [0 ..< n])
             = map (\<lambda>k. nextValue r + 1 + int k) [0 ..< n]"
proof (intro conjI allI impI)
  from generate_sequentially_run[OF assms]
  show "\<exists>d'. generate_sequentially n codeType d =
             (Inr (map (\<lambda>k. PreFix r @ padStart (decimal (nextValue r + 1 + int k))
                                        (length_col r) CHR ''0'') [0 ..< n]), d')"
    by (auto simp: codes_from_def)
next
  fix k
  assume "k \<le> n"
  with assms(3) have "nextValue r + int k \<le> 9007199254740992"
    by simp
  from generate_sequentially_run[OF assms(1,2) this]
  show "filter (\<lambda>x. Code x = codeType)
                      (codeformats (snd (generate_sequentially k codeType d)))
                    = [r\<lparr>nextValue := nextValue r + int k\<rparr>]"
    by (cases "k = 0") auto
next
  show "distinct (map (\<lambda>k. PreFix r @ padStart (decimal (nextValue r + 1 + int k))
                                        (length_col r) CHR ''0'') [0 ..< n])"
    using distinct_codes_from[of r n] by (simp add: codes_from_def)
next
  show "map (\<lambda>c. parse_number (drop (length (PreFix r)) c))
               (map (\<lambda>k. PreFix r @ padStart (decimal (nextValue r + 1 + int k))
                                        (length_col r) CHR ''0'') [0 ..< n])
             = map (\<lambda>k. nextValue r + 1 + int k) [0 ..< n]"
    by (simp add: o_def parse_number_padStart)
qed

lemma example_codes_3:
  "map (\<lambda>k. ''PO'' @ padStart (decimal (99 + 1 + int k)) 2 CHR ''0'') [0 ..< 3]
     = [''PO100'', ''PO101'', ''PO102'']"
  by code_simp

theorem generate_sequentially_distinct_increasing_witness:
  "filter (\<lambda>x. Code x = 2) (codeformats example_db)
     = [\<lparr>Code = 2, PreFix = ''PO'', length_col = 2, nextValue = 99\<rparr>]
   \<and> fst (generate_sequentially 3 2 example_db) = Inr [''PO100'', ''PO101'', ''PO102'']
   \<and> map nextValue (filter (\<lambda>x. Code x = 2)
        (codeformats (snd (generate_sequentially 3 2 example_db)))) = [102]
   \<and> map nextValue (filter (\<lambda>x. Code x = 2)
        (codeformats (snd (generate_sequentially 2 2 example_db)))) = [101]"
proof -
  have lo: "- 9007199254740992 \<le> nextValue \<lparr>Code = 2, PreFix = ''PO'', length_col = 2, nextValue = 99\<rparr>"
    and hi: "nextValue \<lparr>Code = 2, PreFix = ''PO'', length_col = 2, nextValue = 99\<rparr> + int 3
               \<le> 9007199254740992"
    by simp_all
  note T = generate_sequentially_distinct_increasing[OF example_row_2 lo hi]
  from T obtain d' where
    run: "generate_sequentially 3 2 example_db =
             (Inr (map (\<lambda>k. ''PO'' @ padStart (decimal (99 + 1 + int k)) 2 CHR ''0'') [0 ..< 3]), d')"
    by auto
  have codes: "fst (generate_sequentially 3 2 example_db) = Inr [''PO100'', ''PO101'', ''PO102'']"
    by (simp only: run fst_conv example_codes_3)
  from T have rows: "\<forall>k \<le> 3. filter (\<lambda>x. Code x = 2)
                      (codeformats (snd (generate_sequentially k 2 example_db)))
                    = [\<lparr>Code = 2, PreFix = ''PO'', length_col = 2, nextValue = 99 + int k\<rparr>]"
    by simp
  have "map nextValue (filter (\<lambda>x. Code x = 2)
        (codeformats (snd (generate_sequentially 3 2 example_db)))) = [102]"
    using rows[rule_format, of 3] by simp
  moreover have "map nextValue (filter (\<lambda>x. Code x = 2)
        (codeformats (snd (generate_sequentially 2 2 example_db)))) = [101]"
    using rows[rule_format, of 2] by simp
  ultimately show ?thesis
    using codes example_row_2 by blast
qed

section \<open>The discount flag of a product\<close>

lemma add_product_created:
  assumes "add_product req d = (resp, d')" and "status resp = 201"
  shows "\<exists>sku d1. generateEntryCode 1 d = (Inr sku, d1)
           \<and> products d' = products d1 @
               [\<lparr>p_id = products_next_id d1, p_sku = sku,
                 productName = to_sql (ap_name req),
                 category = to_sql (ap_category req),
                 intQty = to_sql (ap_quantity req),
                 p_cost = to_sql (ap_cost req),
                 p_price = to_sql (ap_price req),
                 p_image = to_sql (ap_image req),
                 maxDiscount = to_sql (ap_maxDiscount req),
                 dicountAllowed = (if js_less (Val 0) (ap_maxDiscount req)
                                       \<and> js_less (ap_maxDiscount req) (Val 100) then 1 else 0)\<rparr>]"
proof (cases "generateEntryCode 1 d")
  case (Pair res d1)
  show ?thesis
  proof (cases res)
    case (Inl e)
    with Pair assms show ?thesis
      by (auto simp: add_product_def message_response_def split: if_splits)
  next
    case (Inr sku)
    with Pair assms show ?thesis
      by (auto simp: add_product_def message_response_def sent_def Let_def split: if_splits)
  qed
qed

text \<open>
  Claim C9. Take a \<open>maxDiscount\<close> between 0 and 100. The row that a successful
  \<open>add_product\<close> appends, and every row that \<open>update_product\<close> writes (the rows with the
  request's sku; the others stay as they were), stores that \<open>maxDiscount\<close> with
  \<open>dicountAllowed = 1\<close> exactly when \<open>0 < maxDiscount < 100\<close>, and with
  \<open>dicountAllowed = 0\<close> exactly at the two ends 0 and 100.
\<close>

theorem dicountAllowed_iff_strictly_between:
  assumes "0 \<le> m" and "m \<le> 100"
  shows "(ap_maxDiscount areq = Val m \<and> add_product areq d = (aresp, ad') \<and> status aresp = 201
            \<longrightarrow> (\<exists>row. products ad' = products d @ [row]
                   \<and> maxDiscount row = Some m
                   \<and> (dicountAllowed row = 1) = (0 < m \<and> m < 100)
                   \<and> (dicountAllowed row = 0) = (m = 0 \<or> m = 100)))
       \<and> (up_maxDiscount ureq = Val m \<and> update_product ureq d = (uresp, ud') \<and> status uresp = 200
            \<longrightarrow> list_all2
                  (\<lambda>old new. if Some (p_sku old) = to_sql (up_sku ureq)
                     then maxDiscount new = Some m
                          \<and> (dicountAllowed new = 1) = (0 < m \<and> m < 100)
                          \<and> (dicountAllowed new = 0) = (m = 0 \<or> m = 100)
                     else new = old)
                  (products d) (products ud'))"
proof (intro conjI impI)
  assume a: "ap_maxDiscount areq = Val m \<and> add_product areq d = (aresp, ad') \<and> status aresp = 201"
  then obtain sku d1 where g: "generateEntryCode 1 d = (Inr sku, d1)"
    and p: "products ad' = products d1 @
               [\<lparr>p_id = products_next_id d1, p_sku = sku,
                 productName = to_sql (ap_name areq),
                 category = to_sql (ap_category areq),
                 intQty = to_sql (ap_quantity areq),
                 p_cost = to_sql (ap_cost areq),
                 p_price = to_sql (ap_price areq),
                 p_image = to_sql (ap_image areq),
                 maxDiscount = to_sql (ap_maxDiscount areq),
                 dicountAllowed = (if js_less (Val 0) (ap_maxDiscount areq)
                                       \<and> js_less (ap_maxDiscount areq) (Val 100) then 1 else 0)\<rparr>]"
    using add_product_created by blast
  have "products d1 = products d"
    using generateEntryCode_products[of 1 d] g by simp
  with p a assms show "\<exists>row. products ad' = products d @ [row]
                   \<and> maxDiscount row = Some m
                   \<and> (dicountAllowed row = 1) = (0 < m \<and> m < 100)
                   \<and> (dicountAllowed row = 0) = (m = 0 \<or> m = 100)"
    by (auto simp: js_less_Val to_sql_def)
next
  assume u: "up_maxDiscount ureq = Val m \<and> update_product ureq d = (uresp, ud') \<and> status uresp = 200"
  then have "products ud' =
      map (\<lambda>x. if Some (p_sku x) = to_sql (up_sku ureq)
                then x\<lparr>productName := to_sql (up_name ureq),
                       category := to_sql (up_category ureq),
                       intQty := to_sql (up_quantity ureq),
                       p_price := to_sql (up_price ureq),
                       p_cost := to_sql (up_cost ureq),
                       p_image := (if falsy_str (up_image ureq) then None
                                   else to_sql (up_image ureq)),
                       maxDiscount := to_sql (up_maxDiscount ureq),
                       dicountAllowed := (if 0 < m \<and> m < 100 then 1 else 0)\<rparr>
                else x) (products d)"
    by (auto simp: update_product_def message_response_def sent_def Let_def js_less_Val
             split: if_splits)
  with u assms show "list_all2
                  (\<lambda>old new. if Some (p_sku old) = to_sql (up_sku ureq)
                     then maxDiscount new = Some m
                          \<and> (dicountAllowed new = 1) = (0 < m \<and> m < 100)
                          \<and> (dicountAllowed new = 0) = (m = 0 \<or> m = 100)
                     else new = old)
                  (products d) (products ud')"
    by (auto simp: list_all2_map2 to_sql_def intro!: list_all2_all_nthI)
qed

lemma example_add_status:
  "status (fst (add_product (example_add_req 50) example_db)) = 201"
  "status (fst (add_product (example_add_req 0) example_db)) = 201"
  "status (fst (add_product (example_add_req 100) example_db)) = 201"
  by code_simp+

lemma example_update_status:
  "status (fst (update_product (example_update_req 50) example_db)) = 200"
  by code_simp

lemma example_req_maxDiscount:
  "ap_maxDiscount (example_add_req m) = Val m"
  "up_maxDiscount (example_update_req m) = Val m"
  "to_sql (up_sku (example_update_req m)) = Some ''A''"
  by (simp_all add: example_add_req_def example_update_req_def to_sql_def)

theorem dicountAllowed_iff_strictly_between_witness:
  "(0::rat) \<le> 50 \<and> (50::rat) \<le> 100
   \<and> status (fst (add_product (example_add_req 50) example_db)) = 201
   \<and> dicountAllowed (last (products (snd (add_product (example_add_req 50) example_db)))) = 1
   \<and> dicountAllowed (last (products (snd (add_product (example_add_req 0) example_db)))) = 0
   \<and> dicountAllowed (last (products (snd (add_product (example_add_req 100) example_db)))) = 0
   \<and> status (fst (update_product (example_update_req 50) example_db)) = 200
   \<and> dicountAllowed (hd (products (snd (update_product (example_update_req 50) example_db)))) = 1"
proof -
  let ?U = "update_product (example_update_req 50) example_db"
  have a50: "dicountAllowed (last (products (snd (add_product (example_add_req 50) example_db)))) = 1"
    using dicountAllowed_iff_strictly_between[of 50 "example_add_req 50" example_db
        "fst (add_product (example_add_req 50) example_db)"
        "snd (add_product (example_add_req 50) example_db)"
        "example_update_req 50" "fst ?U" "snd ?U"]
      example_add_status(1)
    by (auto simp: example_req_maxDiscount)
  have a0: "dicountAllowed (last (products (snd (add_product (example_add_req 0) example_db)))) = 0"
    using dicountAllowed_iff_strictly_between[of 0 "example_add_req 0" example_db
        "fst (add_product (example_add_req 0) example_db)"
        "snd (add_product (example_add_req 0) example_db)"
        "example_update_req 0" "fst ?U" "snd ?U"]
      example_add_status(2)
    by (auto simp: example_req_maxDiscount)
  have a100: "dicountAllowed (last (products (snd (add_product (example_add_req 100) example_db)))) = 0"
    using dicountAllowed_iff_strictly_between[of 100 "example_add_req 100" example_db
        "fst (add_product (example_add_req 100) example_db)"
        "snd (add_product (example_add_req 100) example_db)"
        "example_update_req 100" "fst ?U" "snd ?U"]
      example_add_status(3)
    by (auto simp: example_req_maxDiscount)
  have "list_all2
          (\<lambda>old new. if Some (p_sku old) = to_sql (up_sku (example_update_req 50))
             then maxDiscount new = Some 50
                  \<and> (dicountAllowed new = 1) = ((0::rat) < 50 \<and> (50::rat) < 100)
                  \<and> (dicountAllowed new = 0) = ((50::rat) = 0 \<or> (50::rat) = 100)
             else new = old)
          (products example_db) (products (snd ?U))"
    using dicountAllowed_iff_strictly_between[of 50 "example_add_req 50" example_db
        "fst (add_product (example_add_req 50) example_db)"
        "snd (add_product (example_add_req 50) example_db)"
        "example_update_req 50" "fst ?U" "snd ?U"]
      example_update_status
    by (simp add: example_req_maxDiscount(1,2))
  then have "dicountAllowed (hd (products (snd ?U))) = 1"
    by (cases "products (snd ?U)")
       (auto simp: example_db_def example_product_def example_req_maxDiscount(3))
  with a50 a0 a100 example_add_status(1) example_update_status show ?thesis
    by simp
qed

section \<open>Deleting a purchase order\<close>

text \<open>
  Claim C8. For a non-empty order code, \<open>delete_purchase_order\<close> answers 200 after sending
  two statements, the delete of the lines first and the delete of the order second.
  Afterwards the query for the lines of that code returns no row, no order row with that
  code is left, and the rows of other codes are all still there.
\<close>

theorem delete_purchase_order_lines_first:
  assumes "c \<noteq> []"
  shows "status (fst (delete_purchase_order (Val c) d)) = 200
       \<and> journal (snd (delete_purchase_order (Val c) d))
           = journal d @ [Delete_purchaseorderdetails c, Delete_purchaseorder c]
       \<and> select_purchaseorderdetails c (snd (delete_purchase_order (Val c) d)) = []
       \<and> filter (\<lambda>r. purchaseOrderCode r = c)
            (purchaseorder (snd (delete_purchase_order (Val c) d))) = []
       \<and> purchaseorderdetails (snd (delete_purchase_order (Val c) d))
           = filter (\<lambda>r. poCode r \<noteq> c) (purchaseorderdetails d)
       \<and> purchaseorder (snd (delete_purchase_order (Val c) d))
           = filter (\<lambda>r. purchaseOrderCode r \<noteq> c) (purchaseorder d)"
  using assms
  by (simp add: delete_purchase_order_def select_purchaseorderdetails_def sent_def Let_def
      message_response_def filter_empty_conv)

lemma example_po_db_lines:
  "map poCode (select_purchaseorderdetails ''PO100'' example_po_db) = [''PO100'', ''PO100'']"
  "map poCode (purchaseorderdetails example_po_db) = [''PO100'', ''PO099'', ''PO100'']"
  by (simp_all add: select_purchaseorderdetails_def example_po_db_def)

theorem delete_purchase_order_lines_first_witness:
  "''PO100'' \<noteq> []
   \<and> map poCode (select_purchaseorderdetails ''PO100'' example_po_db) = [''PO100'', ''PO100'']
   \<and> status (fst (delete_purchase_order (Val ''PO100'') example_po_db)) = 200
   \<and> select_purchaseorderdetails ''PO100''
        (snd (delete_purchase_order (Val ''PO100'') example_po_db)) = []
   \<and> filter (\<lambda>r. purchaseOrderCode r = ''PO100'')
        (purchaseorder (snd (delete_purchase_order (Val ''PO100'') example_po_db))) = []
   \<and> map poCode (purchaseorderdetails (snd (delete_purchase_order (Val ''PO100'') example_po_db)))
       = [''PO099'']"
proof -
  have "map poCode (filter (\<lambda>r. poCode r \<noteq> ''PO100'') (purchaseorderdetails example_po_db))
          = [''PO099'']"
    by (simp add: example_po_db_def)
  then show ?thesis
    using delete_purchase_order_lines_first[of "''PO100''" example_po_db] example_po_db_lines(1)
    by simp
qed

section \<open>Creating a purchase order\<close>

lemma generateEntryCode_keeps_orders:
  "purchaseorder (snd (generateEntryCode c d)) = purchaseorder d"
  "purchaseorder_next_id (snd (generateEntryCode c d)) = purchaseorder_next_id d"
  "purchaseorderdetails (snd (generateEntryCode c d)) = purchaseorderdetails d"
  "in_transaction (snd (generateEntryCode c d)) = in_transaction d"
  by (cases "filter (\<lambda>x. Code x = c) (codeformats d)";
      simp add: generateEntryCode_def sent_def Let_def)+

text \<open>
  Claim C5, as stated, has the handler return the order code together with the row
  identifier. In the example the order is stored under the code \<open>PO100\<close>, and the
  response has two properties, the message and the row identifier 1: the code is not in it.
\<close>

theorem create_purchase_order_counterexample:
  "status (fst (create_purchase_order (Val example_supplier) (Val example_order_items) (Val 17)
                  example_date example_db)) = 200
   \<and> map purchaseOrderCode (purchaseorder (snd (create_purchase_order (Val example_supplier) (Val example_order_items)
                  (Val 17) example_date example_db))) = [''PO100'']
   \<and> body (fst (create_purchase_order (Val example_supplier) (Val example_order_items) (Val 17)
                  example_date example_db))
       = [(''message'', JString ''Purchase order added successfully''),
          (''purchaseOrderId'', JNumber 1)]"
  by code_simp

text \<open>
  Claim C5, amended. Take a request with a supplier object, and let the call of the code
  generator that the handler makes return a code. Then \<open>create_purchase_order\<close> appends
  one order row carrying that code and, as both \<open>postDate\<close> and \<open>docDate\<close>, the current
  date written as year, month and day with two digits for month and day; then, only when
  \<open>orderDetails\<close> is a non-empty array, it sends one insert that appends one line per
  entry, in order, each line carrying the order code; the order insert comes before the
  line insert, and no transaction is opened. The response is 200 with the message and
  \<open>purchaseOrderId\<close>, the identifier of the new order row, and nothing else.
\<close>

theorem create_purchase_order_parent_then_lines:
  assumes "generateEntryCode 2 d = (Inr code, d1)"
  shows "fst (create_purchase_order (Val supp) orderDetails totalCost date d)
           = \<lparr>status = 200,
              body = [(''message'', JString ''Purchase order added successfully''),
                      (''purchaseOrderId'', JNumber (of_nat (purchaseorder_next_id d)))]\<rparr>
       \<and> purchaseorder (snd (create_purchase_order (Val supp) orderDetails totalCost date d))
           = purchaseorder d @
               [\<lparr>po_id = purchaseorder_next_id d, purchaseOrderCode = code,
                 SupplierCode = to_sql (s_code supp), SupplierName = to_sql (s_name supp),
                 TotalCost = to_sql totalCost,
                 postDate = String_num (getFullYear date) @ ''-''
                            @ padStart (String_num (js_add (getMonth date) 1)) 2 CHR ''0'' @ ''-''
                            @ padStart (String_num (getDate date)) 2 CHR ''0'',
                 docDate = String_num (getFullYear date) @ ''-''
                            @ padStart (String_num (js_add (getMonth date) 1)) 2 CHR ''0'' @ ''-''
                            @ padStart (String_num (getDate date)) 2 CHR ''0''\<rparr>]
       \<and> purchaseorderdetails (snd (create_purchase_order (Val supp) orderDetails totalCost date d))
           = purchaseorderdetails d
             @ (case orderDetails of
                  Val items \<Rightarrow>
                    map (\<lambda>item. \<lparr>poCode = code, ProductCode = to_sql (oi_sku item),
                                  pod_productName = to_sql (oi_productName item),
                                  qty = to_sql (oi_quantity item),
                                  pod_cost = to_sql (oi_cost item)\<rparr>) items
                | _ \<Rightarrow> [])
       \<and> journal (snd (create_purchase_order (Val supp) orderDetails totalCost date d))
           = journal d1
             @ [Insert_purchaseorder code]
             @ (case orderDetails of
                  Val items \<Rightarrow>
                    if items = [] then [] else [Insert_purchaseorderdetails code (length items)]
                | _ \<Rightarrow> [])
       \<and> in_transaction (snd (create_purchase_order (Val supp) orderDetails totalCost date d))
           = in_transaction d"
proof -
  have d1: "d1 = snd (generateEntryCode 2 d)"
    by (simp add: assms)
  note keep = generateEntryCode_keeps_orders[of 2 d, folded d1]
  show ?thesis
  proof (cases orderDetails)
    case Undefined
    then show ?thesis
      by (simp add: create_purchase_order_def assms read_of_def sent_def Let_def keep qdate_def)
  next
    case Null
    then show ?thesis
      by (simp add: create_purchase_order_def assms read_of_def sent_def Let_def keep qdate_def)
  next
    case (Val items)
    then show ?thesis
      by (simp add: create_purchase_order_def assms read_of_def sent_def Let_def keep qdate_def
          orderItems_def)
  qed
qed

lemma example_generated_PO100:
  "generateEntryCode 2 example_db = (Inr ''PO100'', snd (generateEntryCode 2 example_db))"
  "journal (snd (generateEntryCode 2 example_db))
     = [Select_codeformats 2, Update_codeformats_nextValue 100 2]"
  by code_simp+

lemma example_db_orders:
  "purchaseorder example_db = []"
  "purchaseorderdetails example_db = []"
  by (simp_all add: example_db_def)

lemma example_date_text:
  "String_num (getFullYear example_date) @ ''-''
     @ padStart (String_num (js_add (getMonth example_date) 1)) 2 CHR ''0'' @ ''-''
     @ padStart (String_num (getDate example_date)) 2 CHR ''0'' = ''2024-01-05''"
  by code_simp

theorem create_purchase_order_parent_then_lines_witness:
  "fst (generateEntryCode 2 example_db) = Inr ''PO100''
   \<and> map purchaseOrderCode (purchaseorder (snd (create_purchase_order (Val example_supplier) (Val example_order_items)
                  (Val 17) example_date example_db))) = [''PO100'']
   \<and> map postDate (purchaseorder (snd (create_purchase_order (Val example_supplier) (Val example_order_items)
                  (Val 17) example_date example_db))) = [''2024-01-05'']
   \<and> map docDate (purchaseorder (snd (create_purchase_order (Val example_supplier) (Val example_order_items)
                  (Val 17) example_date example_db))) = [''2024-01-05'']
   \<and> map poCode (purchaseorderdetails (snd (create_purchase_order (Val example_supplier) (Val example_order_items)
                  (Val 17) example_date example_db))) = [''PO100'', ''PO100'']
   \<and> map ProductCode (purchaseorderdetails (snd (create_purchase_order (Val example_supplier) (Val example_order_items)
                  (Val 17) example_date example_db))) = [Some ''A'', Some ''B'']
   \<and> journal (snd (create_purchase_order (Val example_supplier) (Val example_order_items)
                  (Val 17) example_date example_db))
       = [Select_codeformats 2, Update_codeformats_nextValue 100 2,
          Insert_purchaseorder ''PO100'', Insert_purchaseorderdetails ''PO100'' 2]"
proof -
  note T = create_purchase_order_parent_then_lines[OF example_generated_PO100(1),
      of example_supplier "Val example_order_items" "Val 17" example_date,
      unfolded example_date_text example_db_orders example_generated_PO100(2)]
  have "fst (generateEntryCode 2 example_db) = Inr ''PO100''"
    by (subst example_generated_PO100(1)) simp
  moreover have "map purchaseOrderCode (purchaseorder (snd (create_purchase_order (Val example_supplier) (Val example_order_items)
                  (Val 17) example_date example_db))) = [''PO100'']"
    and "map postDate (purchaseorder (snd (create_purchase_order (Val example_supplier) (Val example_order_items)
                  (Val 17) example_date example_db))) = [''2024-01-05'']"
    and "map docDate (purchaseorder (snd (create_purchase_order (Val example_supplier) (Val example_order_items)
                  (Val 17) example_date example_db))) = [''2024-01-05'']"
    using T by simp_all
  moreover have "map poCode (purchaseorderdetails (snd (create_purchase_order (Val example_supplier) (Val example_order_items)
                  (Val 17) example_date example_db))) = [''PO100'', ''PO100'']"
    and "map ProductCode (purchaseorderdetails (snd (create_purchase_order (Val example_supplier) (Val example_order_items)
                  (Val 17) example_date example_db))) = [Some ''A'', Some ''B'']"
    using T by (simp_all add: example_order_items_def to_sql_def)
  moreover have "journal (snd (create_purchase_order (Val example_supplier) (Val example_order_items)
                  (Val 17) example_date example_db))
       = [Select_codeformats 2, Update_codeformats_nextValue 100 2,
          Insert_purchaseorder ''PO100'', Insert_purchaseorderdetails ''PO100'' 2]"
    using T by (simp add: example_order_items_def)
  ultimately show ?thesis
    by blast
qed

section \<open>Saving an invoice\<close>

lemma execute_cart_items_effect:
  "execute_cart_items c items d =
     d\<lparr>cart_items := cart_items d @ map (cart_row c) (filter (\<lambda>i. \<not> cart_item_rejected i) items),
       journal := journal d @ replicate (length (filter (\<lambda>i. \<not> cart_item_rejected i) items))
                                (Insert_cart_items c)\<rparr>"
proof (induction items arbitrary: d)
  case Nil
  show ?case by simp
next
  case (Cons item items)
  show ?case
    by (cases "cart_item_rejected item") (simp_all add: Cons.IH sent_def)
qed

lemma discount_or_0_cases: "discount_or_0 x = (case x of Val v \<Rightarrow> v | _ \<Rightarrow> 0)"
  by (cases x) (simp_all add: discount_or_0_def falsy_num_def)

text \<open>
  Claim C7. Take a request whose customer, invoice fields and cart items leave no bind
  parameter undefined, and a database with a row for code type 6. Then \<open>save_invoice\<close>
  generates the code with code type 6, appends exactly one \<open>sales_invoices\<close> row with that
  code and exactly one \<open>cart_items\<close> row per entry of \<open>cartItems\<close>, in order, each with
  that code as \<open>invoice_code\<close> and with the entry's discount, or 0 when the entry has
  none; it commits, and answers 200 with \<open>invoiceCode\<close> set to the generated code.
\<close>

theorem save_invoice_one_row_per_item:
  assumes "filter (\<lambda>x. Code x = 6) (codeformats d) = r # rs"
    and "code = PreFix r @ padStart (String_num (js_add (js_number (nextValue r)) 1)) (length_col r) CHR ''0''"
    and "\<not> invoice_rejected cust meta"
    and "\<not> list_ex cart_item_rejected items"
  shows "fst (save_invoice (Val cust) (Val meta) (Val items) d)
           = Some \<lparr>status = 200,
                   body = [(''message'', JString ''Invoice saved successfully!''),
                           (''invoiceCode'', JString code)]\<rparr>
       \<and> sales_invoices (snd (save_invoice (Val cust) (Val meta) (Val items) d))
           = sales_invoices d @
               [\<lparr>si_code = code, customer_id = to_sql (c_code cust),
                 post_date = to_sql (inv_postDate meta), due_date = to_sql (inv_dueDate meta),
                 payment_method = to_sql (inv_paymentMethod meta),
                 total_amount = to_sql (inv_totalAmount meta),
                 discount_amount = to_sql (inv_discountAmount meta),
                 net_total = to_sql (inv_netTotal meta)\<rparr>]
       \<and> cart_items (snd (save_invoice (Val cust) (Val meta) (Val items) d))
           = cart_items d @ map (cart_row code) items
       \<and> length (map (cart_row code) items) = length items
       \<and> map invoice_code (map (cart_row code) items) = replicate (length items) code
       \<and> map ci_discount (map (cart_row code) items)
           = map (\<lambda>i. case item_discount i of Val v \<Rightarrow> v | _ \<Rightarrow> 0) items
       \<and> in_transaction (snd (save_invoice (Val cust) (Val meta) (Val items) d)) = False
       \<and> journal (snd (save_invoice (Val cust) (Val meta) (Val items) d))
           = journal d
             @ [Select_codeformats 6, Update_codeformats_nextValue (js_add (js_number (nextValue r)) 1) 6,
                BeginTransaction, Insert_sales_invoices code]
             @ replicate (length items) (Insert_cart_items code) @ [Commit]"
proof -
  note g = generateEntryCode_found[OF assms(1)]
  have keep: "filter (\<lambda>i. \<not> cart_item_rejected i) items = items"
    using assms(4) by (simp add: list_ex_iff)
  have codes: "map invoice_code (map (cart_row code) items) = replicate (length items) code"
    by (induction items) (simp_all add: cart_row_def)
  have discounts: "map ci_discount (map (cart_row code) items)
           = map (\<lambda>i. case item_discount i of Val v \<Rightarrow> v | _ \<Rightarrow> 0) items"
    by (simp add: cart_row_def discount_or_0_cases)
  have run: "save_invoice (Val cust) (Val meta) (Val items) d =
    (Some \<lparr>status = 200,
            body = [(''message'', JString ''Invoice saved successfully!''),
                    (''invoiceCode'', JString code)]\<rparr>,
     d\<lparr>codeformats := map (\<lambda>x. if Code x = 6 then x\<lparr>nextValue := sql_number (js_add (js_number (nextValue r)) 1)\<rparr> else x)
                          (codeformats d),
       sales_invoices := sales_invoices d @
               [\<lparr>si_code = code, customer_id = to_sql (c_code cust),
                 post_date = to_sql (inv_postDate meta), due_date = to_sql (inv_dueDate meta),
                 payment_method = to_sql (inv_paymentMethod meta),
                 total_amount = to_sql (inv_totalAmount meta),
                 discount_amount = to_sql (inv_discountAmount meta),
                 net_total = to_sql (inv_netTotal meta)\<rparr>],
       cart_items := cart_items d @ map (cart_row code) items,
       in_transaction := False,
       journal := journal d
             @ [Select_codeformats 6, Update_codeformats_nextValue (js_add (js_number (nextValue r)) 1) 6,
                BeginTransaction, Insert_sales_invoices code]
             @ replicate (length items) (Insert_cart_items code) @ [Commit]\<rparr>)"
    using assms(3,4)
    by (simp add: save_invoice_def g read_of_def sent_def Let_def assms(2)
        execute_cart_items_effect keep)
  show ?thesis
    by (simp only: run fst_conv snd_conv codes discounts) simp
qed

lemma example_invoice_accepted: "\<not> invoice_rejected example_customer example_invoice"
  by (simp add: invoice_rejected_def example_customer_def example_invoice_def)

lemma example_cart_accepted:
  "\<not> list_ex cart_item_rejected
       [example_cart_item (Val ''A'') Undefined, example_cart_item (Val ''B'') (Val 1),
        example_cart_item (Val ''A'') Null]"
  by (simp add: cart_item_rejected_def example_cart_item_def)

theorem save_invoice_one_row_per_item_witness:
  "filter (\<lambda>x. Code x = 6) (codeformats example_db)
     = [\<lparr>Code = 6, PreFix = ''INV'', length_col = 3, nextValue = 7\<rparr>]
   \<and> \<not> invoice_rejected example_customer example_invoice
   \<and> \<not> list_ex cart_item_rejected
       [example_cart_item (Val ''A'') Undefined, example_cart_item (Val ''B'') (Val 1),
        example_cart_item (Val ''A'') Null]
   \<and> fst (save_invoice (Val example_customer) (Val example_invoice)
             (Val [example_cart_item (Val ''A'') Undefined, example_cart_item (Val ''B'') (Val 1),
                   example_cart_item (Val ''A'') Null]) example_db)
       = Some \<lparr>status = 200,
               body = [(''message'', JString ''Invoice saved successfully!''),
                       (''invoiceCode'', JString ''INV008'')]\<rparr>
   \<and> map invoice_code (cart_items (snd (save_invoice (Val example_customer) (Val example_invoice)
             (Val [example_cart_item (Val ''A'') Undefined, example_cart_item (Val ''B'') (Val 1),
                   example_cart_item (Val ''A'') Null]) example_db)))
       = [''INV008'', ''INV008'', ''INV008'']
   \<and> map ci_discount (cart_items (snd (save_invoice (Val example_customer) (Val example_invoice)
             (Val [example_cart_item (Val ''A'') Undefined, example_cart_item (Val ''B'') (Val 1),
                   example_cart_item (Val ''A'') Null]) example_db)))
       = [0, 1, 0]"
proof -
  note T = save_invoice_one_row_per_item[OF example_row_6 example_code_INV008
      example_invoice_accepted example_cart_accepted]
  have "cart_items example_db = []"
    by (simp add: example_db_def)
  with T show ?thesis
    using example_row_6 example_invoice_accepted example_cart_accepted
    by (simp add: example_cart_item_def)
qed

text \<open>
  Claim C6 on the code. The request has two cart items; the second has no \<open>sku\<close>, so its
  insert is rejected. The handler answers 500 with the reason, as the claim says. But the
  invoice row and the first cart item row that this request inserted are still there (both
  tables were empty before), the transaction is still open, and neither a rollback nor a
  commit was sent: the \<^verbatim>\<open>catch\<close> block only responds.
\<close>

theorem save_invoice_rejected_item_no_rollback:
  "fst (save_invoice (Val example_customer) (Val example_invoice)
          (Val [example_cart_item (Val ''A'') Undefined, example_cart_item Undefined (Val 1)])
          example_db)
     = Some \<lparr>status = 500,
              body = [(''message'', JString
                ''Failed to save invoice. Bind parameters must not contain undefined. To pass SQL NULL specify JS null'')]\<rparr>
   \<and> map si_code (sales_invoices (snd (save_invoice (Val example_customer) (Val example_invoice)
          (Val [example_cart_item (Val ''A'') Undefined, example_cart_item Undefined (Val 1)])
          example_db))) = [''INV008'']
   \<and> map invoice_code (cart_items (snd (save_invoice (Val example_customer) (Val example_invoice)
          (Val [example_cart_item (Val ''A'') Undefined, example_cart_item Undefined (Val 1)])
          example_db))) = [''INV008'']
   \<and> in_transaction (snd (save_invoice (Val example_customer) (Val example_invoice)
          (Val [example_cart_item (Val ''A'') Undefined, example_cart_item Undefined (Val 1)])
          example_db)) = True
   \<and> journal (snd (save_invoice (Val example_customer) (Val example_invoice)
          (Val [example_cart_item (Val ''A'') Undefined, example_cart_item Undefined (Val 1)])
          example_db))
       = [Select_codeformats 6, Update_codeformats_nextValue 8 6, BeginTransaction,
          Insert_sales_invoices ''INV008'', Insert_cart_items ''INV008'']
   \<and> sales_invoices example_db = [] \<and> cart_items example_db = []"
  by code_simp

text \<open>The same for every request with a rejected cart item.\<close>

lemma save_invoice_rejected_item_general:
  assumes "filter (\<lambda>x. Code x = 6) (codeformats d) = r # rs"
    and "code = PreFix r @ padStart (String_num (js_add (js_number (nextValue r)) 1)) (length_col r) CHR ''0''"
    and "\<not> invoice_rejected cust meta"
    and "list_ex cart_item_rejected items"
  shows "fst (save_invoice (Val cust) (Val meta) (Val items) d)
           = Some \<lparr>status = 500,
                    body = [(''message'', JString
                      (''Failed to save invoice. '' @ err_message bind_undefined_error))]\<rparr>
       \<and> map si_code (sales_invoices (snd (save_invoice (Val cust) (Val meta) (Val items) d)))
           = map si_code (sales_invoices d) @ [code]
       \<and> cart_items (snd (save_invoice (Val cust) (Val meta) (Val items) d))
           = cart_items d @ map (cart_row code) (filter (\<lambda>i. \<not> cart_item_rejected i) items)
       \<and> in_transaction (snd (save_invoice (Val cust) (Val meta) (Val items) d)) = True
       \<and> Commit \<notin> set (drop (length (journal d))
                  (journal (snd (save_invoice (Val cust) (Val meta) (Val items) d))))"
  using assms(3,4)
  by (simp add: save_invoice_def generateEntryCode_found[OF assms(1)] read_of_def sent_def
      Let_def assms(2) execute_cart_items_effect invoice_failed_def message_response_def)

section \<open>Inventory deduction\<close>

lemma deduct_row_Some:
  "deduct_row (Some q) (Some s) x =
     (case intQty x of
        Some v \<Rightarrow> if p_sku x = s \<and> q \<le> v then x\<lparr>intQty := Some (v - q)\<rparr> else x
      | None \<Rightarrow> x)"
  by (simp add: deduct_row_def deduct_matches_def split: option.splits)

lemma affectedRows_0_iff:
  "affectedRows (Some q) (Some s) rows = 0
     \<longleftrightarrow> (\<forall>x \<in> set rows. p_sku x \<noteq> s \<or> (case intQty x of Some v \<Rightarrow> v < q | None \<Rightarrow> True))"
  by (auto simp: affectedRows_def deduct_matches_def filter_empty_conv split: option.splits)

lemma affectedRows_0_unchanged:
  "affectedRows quantity sku rows = 0 \<Longrightarrow> map (deduct_row quantity sku) rows = rows"
  by (simp add: affectedRows_def deduct_row_def filter_empty_conv map_idI)

lemma inventory_loop_append:
  "inventory_loop (xs @ ys) d =
     (if status (fst (inventory_loop xs d)) = 200
      then inventory_loop ys (snd (inventory_loop xs d))
      else inventory_loop xs d)"
proof (induction xs arbitrary: d)
  case Nil
  show ?case by (simp add: message_response_def)
next
  case (Cons e xs)
  show ?case
    by (simp add: Cons.IH Let_def message_response_def)
qed

lemma inventory_loop_entry:
  "inventory_loop (entry (s, q) # es) d =
     (if q \<le> 0
      then (message_response 400 (''Quantity must be greater than zero for SKU: '' @ s), d)
      else if affectedRows (Some q) (Some s) (products d) = 0
      then (message_response 404 (''Product with SKU '' @ s @ '' not found or insufficient stock.''),
            sent (Update_products_intQty (Some q) (Some s)) d)
      else inventory_loop es
             (sent (Update_products_intQty (Some q) (Some s))
                (d\<lparr>products := map (deduct_row (Some q) (Some s)) (products d)\<rparr>)))"
proof (cases "affectedRows (Some q) (Some s) (products d) = 0")
  case True
  then have "d\<lparr>products := map (deduct_row (Some q) (Some s)) (products d)\<rparr> = d"
    by (simp add: affectedRows_0_unchanged)
  with True show ?thesis
    by (simp add: entry_def js_less_eq_Val to_sql_def js_concat_str_def Let_def)
next
  case False
  then show ?thesis
    by (simp add: entry_def js_less_eq_Val to_sql_def js_concat_str_def Let_def)
qed

lemma auto_update_inventory_valid:
  assumes "batch \<noteq> []" and "\<forall>p \<in> set batch. fst p \<noteq> []"
  shows "auto_update_inventory (Some (map entry batch)) d = inventory_loop (map entry batch) d"
proof -
  have "filter (\<lambda>p. falsy_str (ie_sku p) \<or> is_nullish (ie_quantity p)) (map entry batch) = []"
    using assms(2) by (auto simp: filter_empty_conv entry_def falsy_str_def is_nullish_def)
  then show ?thesis
    using assms(1) by (simp add: auto_update_inventory_def)
qed

lemma inventory_loop_ok_products:
  "status (fst (inventory_loop (map entry batch) d)) = 200 \<Longrightarrow>
   products (snd (inventory_loop (map entry batch) d))
     = foldl (\<lambda>rows p. map (deduct_row (Some (snd p)) (Some (fst p))) rows) (products d) batch"
proof (induction batch arbitrary: d)
  case Nil
  show ?case by simp
next
  case (Cons p batch)
  obtain s q where p: "p = (s, q)" by (cases p)
  from Cons.prems have ok: "\<not> q \<le> 0" "affectedRows (Some q) (Some s) (products d) \<noteq> 0"
    by (auto simp: p inventory_loop_entry message_response_def simp del: inventory_loop.simps(2)
        split: if_splits)
  let ?d1 = "sent (Update_products_intQty (Some q) (Some s))
                (d\<lparr>products := map (deduct_row (Some q) (Some s)) (products d)\<rparr>)"
  have step: "inventory_loop (map entry (p # batch)) d = inventory_loop (map entry batch) ?d1"
    using ok by (simp add: p inventory_loop_entry del: inventory_loop.simps(2))
  have "products ?d1 = map (deduct_row (Some q) (Some s)) (products d)"
    by (simp add: sent_def)
  with Cons.IH[of ?d1] Cons.prems step show ?case
    by (simp add: p)
qed

lemma rejected_entry_run:
  assumes valid: "\<forall>p \<in> set (pre @ (s, q) # post). fst p \<noteq> []"
    and pre_ok: "inventory_loop (map entry pre) d
                   = (message_response 200 ''Products updated successfully.'', d1)"
  shows "auto_update_inventory (Some (map entry (pre @ (s, q) # post))) d
           = inventory_loop (entry (s, q) # map entry post) d1"
proof -
  have "auto_update_inventory (Some (map entry (pre @ (s, q) # post))) d
          = inventory_loop (map entry pre @ entry (s, q) # map entry post) d"
    using auto_update_inventory_valid[OF _ valid, of d] by simp
  also have "\<dots> = inventory_loop (entry (s, q) # map entry post) d1"
    by (simp only: inventory_loop_append pre_ok fst_conv snd_conv)
       (simp add: message_response_def)
  finally show ?thesis .
qed

text \<open>
  Claim C4. Take a batch that passes validation, whose entries before \<open>(s, q)\<close> were
  all deducted, and let \<open>q\<close> be positive. The entry is one conditional update, the one
  statement sent for it: it matches
  no row exactly when every row has another sku or less stock than \<open>q\<close> (or no
  quantity). When it matches no row the handler stops there with status 404 and the body
  \<^verbatim>\<open>{message: "Product with SKU s not found or insufficient stock."}\<close>, which names
  \<open>s\<close>, and the later entries are not processed; otherwise every row of that sku
  with stock at least \<open>q\<close> loses \<open>q\<close>, no other row changes, and the loop goes on with
  the next entry. The example is a stock of 10 and three deductions of 4: two succeed, the
  third is rejected, 2 is left.
\<close>

theorem auto_update_inventory_conditional_deduction:
  assumes "\<forall>p \<in> set (pre @ (s, q) # post). fst p \<noteq> []"
    and "inventory_loop (map entry pre) d
           = (\<lparr>status = 200, body = [(''message'', JString ''Products updated successfully.'')]\<rparr>, d1)"
    and "0 < q"
  shows "(affectedRows (Some q) (Some s) (products d1) = 0 \<longrightarrow>
            auto_update_inventory (Some (map entry (pre @ (s, q) # post))) d
              = (\<lparr>status = 404, body = [(''message'', JString (''Product with SKU '' @ s @ '' not found or insufficient stock.''))]\<rparr>,
                 d1\<lparr>journal := journal d1 @ [Update_products_intQty (Some q) (Some s)]\<rparr>))
       \<and> (affectedRows (Some q) (Some s) (products d1) \<noteq> 0 \<longrightarrow>
            auto_update_inventory (Some (map entry (pre @ (s, q) # post))) d
              = inventory_loop (map entry post)
                  (d1\<lparr>products :=
                        map (\<lambda>x. case intQty x of
                                    Some v \<Rightarrow> if p_sku x = s \<and> q \<le> v
                                              then x\<lparr>intQty := Some (v - q)\<rparr> else x
                                  | None \<Rightarrow> x)
                          (products d1),
                      journal := journal d1 @ [Update_products_intQty (Some q) (Some s)]\<rparr>))
       \<and> (affectedRows (Some q) (Some s) (products d1) = 0
            \<longleftrightarrow> (\<forall>x \<in> set (products d1).
                   p_sku x \<noteq> s \<or> (case intQty x of Some v \<Rightarrow> v < q | None \<Rightarrow> True)))"
proof -
  have pre_ok: "inventory_loop (map entry pre) d
      = (message_response 200 ''Products updated successfully.'', d1)"
    by (simp add: assms(2) message_response_def)
  have rows: "map (deduct_row (Some q) (Some s)) (products d1)
      = map (\<lambda>x. case intQty x of
                   Some v \<Rightarrow> if p_sku x = s \<and> q \<le> v then x\<lparr>intQty := Some (v - q)\<rparr> else x
                 | None \<Rightarrow> x) (products d1)"
    by (simp add: deduct_row_Some)
  have run: "auto_update_inventory (Some (map entry (pre @ (s, q) # post))) d
      = (if affectedRows (Some q) (Some s) (products d1) = 0
         then (\<lparr>status = 404, body = [(''message'', JString (''Product with SKU '' @ s @ '' not found or insufficient stock.''))]\<rparr>,
               sent (Update_products_intQty (Some q) (Some s)) d1)
         else inventory_loop (map entry post)
                (sent (Update_products_intQty (Some q) (Some s))
                   (d1\<lparr>products := map (deduct_row (Some q) (Some s)) (products d1)\<rparr>)))"
    unfolding rejected_entry_run[OF assms(1) pre_ok] inventory_loop_entry using assms(3)
    by (simp add: message_response_def)
  show ?thesis
  proof (intro conjI impI)
    assume "affectedRows (Some q) (Some s) (products d1) = 0"
    then show "auto_update_inventory (Some (map entry (pre @ (s, q) # post))) d
              = (\<lparr>status = 404, body = [(''message'', JString (''Product with SKU '' @ s @ '' not found or insufficient stock.''))]\<rparr>,
                 d1\<lparr>journal := journal d1 @ [Update_products_intQty (Some q) (Some s)]\<rparr>)"
      unfolding run by (simp add: sent_def)
  next
    assume "affectedRows (Some q) (Some s) (products d1) \<noteq> 0"
    then show "auto_update_inventory (Some (map entry (pre @ (s, q) # post))) d
              = inventory_loop (map entry post)
                  (d1\<lparr>products :=
                        map (\<lambda>x. case intQty x of
                                    Some v \<Rightarrow> if p_sku x = s \<and> q \<le> v
                                              then x\<lparr>intQty := Some (v - q)\<rparr> else x
                                  | None \<Rightarrow> x)
                          (products d1),
                      journal := journal d1 @ [Update_products_intQty (Some q) (Some s)]\<rparr>)"
      unfolding run rows by (simp add: sent_def)
  next
    show "affectedRows (Some q) (Some s) (products d1) = 0
            \<longleftrightarrow> (\<forall>x \<in> set (products d1).
                   p_sku x \<noteq> s \<or> (case intQty x of Some v \<Rightarrow> v < q | None \<Rightarrow> True))"
      by (rule affectedRows_0_iff)
  qed
qed

text \<open>
  Claim C10. When the batch is rejected at the entry \<open>(s, q)\<close>, because \<open>q\<close> is not
  positive or because the update matches no row (unknown sku or too little stock), the
  products table is the one the earlier entries left: their deductions, applied in order
  to the starting table, and nothing is put back. The response is status 400 or 404 with
  a body of one message, which names \<open>s\<close> and no other sku.
\<close>

theorem auto_update_inventory_rejection_keeps_deductions:
  assumes "\<forall>p \<in> set (pre @ (s, q) # post). fst p \<noteq> []"
    and "inventory_loop (map entry pre) d
           = (\<lparr>status = 200, body = [(''message'', JString ''Products updated successfully.'')]\<rparr>, d1)"
    and "q \<le> 0 \<or> affectedRows (Some q) (Some s) (products d1) = 0"
  shows "products (snd (auto_update_inventory (Some (map entry (pre @ (s, q) # post))) d))
           = foldl (\<lambda>rows p. map (deduct_row (Some (snd p)) (Some (fst p))) rows) (products d) pre
       \<and> fst (auto_update_inventory (Some (map entry (pre @ (s, q) # post))) d)
           = (if q \<le> 0
              then \<lparr>status = 400, body = [(''message'', JString (''Quantity must be greater than zero for SKU: '' @ s))]\<rparr>
              else \<lparr>status = 404, body = [(''message'', JString (''Product with SKU '' @ s @ '' not found or insufficient stock.''))]\<rparr>)"
proof -
  have pre_ok: "inventory_loop (map entry pre) d
      = (message_response 200 ''Products updated successfully.'', d1)"
    by (simp add: assms(2) message_response_def)
  have "status (fst (inventory_loop (map entry pre) d)) = 200"
    by (simp add: assms(2))
  then have d1: "products d1
      = foldl (\<lambda>rows p. map (deduct_row (Some (snd p)) (Some (fst p))) rows) (products d) pre"
    using inventory_loop_ok_products[of pre d] by (simp add: assms(2))
  show ?thesis
    using assms(3)
    unfolding rejected_entry_run[OF assms(1) pre_ok] inventory_loop_entry d1[symmetric]
    by (auto simp: sent_def message_response_def)
qed

lemma example_two_deductions:
  "inventory_loop (map entry [(''A'', 4), (''A'', 4)]) example_db
     = (\<lparr>status = 200, body = [(''message'', JString ''Products updated successfully.'')]\<rparr>,
        snd (inventory_loop (map entry [(''A'', 4), (''A'', 4)]) example_db))"
  "affectedRows (Some 4) (Some ''A'')
     (products (snd (inventory_loop (map entry [(''A'', 4), (''A'', 4)]) example_db))) = 0"
  "map intQty (products (snd (inventory_loop (map entry [(''A'', 4), (''A'', 4)]) example_db)))
     = [Some 2, Some 1]"
  "status (fst (inventory_loop (map entry [(''A'', 4), (''A'', 4)]) example_db)) = 200"
  by code_simp+

lemma example_two_requests:
  "status (fst (auto_update_inventory (Some (map entry [(''A'', 4)])) example_db)) = 200"
  "status (fst (auto_update_inventory (Some (map entry [(''A'', 4)]))
                  (snd (auto_update_inventory (Some (map entry [(''A'', 4)])) example_db)))) = 200"
  "affectedRows (Some 4) (Some ''A'') (products example_after_two_requests) = 0"
  "map intQty (products example_after_two_requests) = [Some 2, Some 1]"
  by code_simp+

theorem auto_update_inventory_conditional_deduction_witness:
  "map intQty (products example_db) = [Some 10, Some 1]
   \<and> status (fst (inventory_loop (map entry [(''A'', 4), (''A'', 4)]) example_db)) = 200
   \<and> fst (auto_update_inventory (Some (map entry [(''A'', 4), (''A'', 4), (''A'', 4)])) example_db)
       = \<lparr>status = 404, body = [(''message'', JString ''Product with SKU A not found or insufficient stock.'')]\<rparr>
   \<and> map intQty (products (snd (auto_update_inventory
         (Some (map entry [(''A'', 4), (''A'', 4), (''A'', 4)])) example_db)))
       = [Some 2, Some 1]
   \<and> status (fst (auto_update_inventory (Some (map entry [(''A'', 4)])) example_db)) = 200
   \<and> status (fst (auto_update_inventory (Some (map entry [(''A'', 4)]))
                  (snd (auto_update_inventory (Some (map entry [(''A'', 4)])) example_db)))) = 200
   \<and> fst (auto_update_inventory (Some (map entry [(''A'', 4)])) example_after_two_requests)
       = \<lparr>status = 404, body = [(''message'', JString ''Product with SKU A not found or insufficient stock.'')]\<rparr>
   \<and> map intQty (products (snd (auto_update_inventory (Some (map entry [(''A'', 4)]))
         example_after_two_requests)))
       = [Some 2, Some 1]"
proof -
  have valid: "\<forall>p \<in> set ([(''A'', 4), (''A'', 4)] @ (''A'', 4::int) # []). fst p \<noteq> []"
    and valid1: "\<forall>p \<in> set ([] @ (''A'', 4::int) # []). fst p \<noteq> []"
    by simp_all
  have pos: "(0::int) < 4"
    by simp
  have start: "map intQty (products example_db) = [Some 10, Some 1]"
    by (simp add: example_db_def example_product_def)
  from auto_update_inventory_conditional_deduction[OF valid example_two_deductions(1) pos]
    example_two_deductions(2)
  have "auto_update_inventory (Some (map entry ([(''A'', 4), (''A'', 4)] @ (''A'', 4) # []))) example_db
          = (\<lparr>status = 404, body = [(''message'', JString (''Product with SKU '' @ ''A'' @ '' not found or insufficient stock.''))]\<rparr>,
             (snd (inventory_loop (map entry [(''A'', 4), (''A'', 4)]) example_db))
               \<lparr>journal := journal (snd (inventory_loop (map entry [(''A'', 4), (''A'', 4)]) example_db))
                  @ [Update_products_intQty (Some 4) (Some ''A'')]\<rparr>)"
    by blast
  then have run: "auto_update_inventory (Some (map entry [(''A'', 4), (''A'', 4), (''A'', 4)])) example_db
          = (\<lparr>status = 404, body = [(''message'', JString ''Product with SKU A not found or insufficient stock.'')]\<rparr>,
             (snd (inventory_loop (map entry [(''A'', 4), (''A'', 4)]) example_db))
               \<lparr>journal := journal (snd (inventory_loop (map entry [(''A'', 4), (''A'', 4)]) example_db))
                  @ [Update_products_intQty (Some 4) (Some ''A'')]\<rparr>)"
    by (simp only: append.simps)
  have batch: "fst (auto_update_inventory (Some (map entry [(''A'', 4), (''A'', 4), (''A'', 4)])) example_db)
       = \<lparr>status = 404, body = [(''message'', JString ''Product with SKU A not found or insufficient stock.'')]\<rparr>
     \<and> map intQty (products (snd (auto_update_inventory
         (Some (map entry [(''A'', 4), (''A'', 4), (''A'', 4)])) example_db)))
       = [Some 2, Some 1]"
    by (simp only: run fst_conv snd_conv products_journal example_two_deductions(3))
  have none: "inventory_loop (map entry []) example_after_two_requests
      = (\<lparr>status = 200, body = [(''message'', JString ''Products updated successfully.'')]\<rparr>, example_after_two_requests)"
    by (simp add: message_response_def)
  from auto_update_inventory_conditional_deduction[OF valid1 none pos] example_two_requests(3)
  have "auto_update_inventory (Some (map entry ([] @ (''A'', 4) # []))) example_after_two_requests
          = (\<lparr>status = 404, body = [(''message'', JString (''Product with SKU '' @ ''A'' @ '' not found or insufficient stock.''))]\<rparr>,
             example_after_two_requests
               \<lparr>journal := journal example_after_two_requests
                  @ [Update_products_intQty (Some 4) (Some ''A'')]\<rparr>)"
    by blast
  then have run1: "auto_update_inventory (Some (map entry [(''A'', 4)])) example_after_two_requests
          = (\<lparr>status = 404, body = [(''message'', JString ''Product with SKU A not found or insufficient stock.'')]\<rparr>,
             example_after_two_requests
               \<lparr>journal := journal example_after_two_requests
                  @ [Update_products_intQty (Some 4) (Some ''A'')]\<rparr>)"
    by (simp only: append.simps)
  have requests: "fst (auto_update_inventory (Some (map entry [(''A'', 4)])) example_after_two_requests)
       = \<lparr>status = 404, body = [(''message'', JString ''Product with SKU A not found or insufficient stock.'')]\<rparr>
     \<and> map intQty (products (snd (auto_update_inventory (Some (map entry [(''A'', 4)]))
         example_after_two_requests)))
       = [Some 2, Some 1]"
    by (simp only: run1 fst_conv snd_conv products_journal example_two_requests(4))
  from batch requests show ?thesis
    using start example_two_deductions(4) example_two_requests(1,2) by blast
qed

lemma example_one_deduction:
  "inventory_loop (map entry [(''A'', 4)]) example_db
     = (\<lparr>status = 200, body = [(''message'', JString ''Products updated successfully.'')]\<rparr>,
        snd (inventory_loop (map entry [(''A'', 4)]) example_db))"
  "affectedRows (Some 5) (Some ''B'')
     (products (snd (inventory_loop (map entry [(''A'', 4)]) example_db))) = 0"
  "affectedRows (Some 1) (Some ''Z'')
     (products (snd (inventory_loop (map entry [(''A'', 4)]) example_db))) = 0"
  "map intQty (foldl (\<lambda>rows p. map (deduct_row (Some (snd p)) (Some (fst p))) rows)
                 (products example_db) [(''A'', 4)])
     = [Some 6, Some 1]"
  by code_simp+

theorem auto_update_inventory_rejection_keeps_deductions_witness:
  "map intQty (products example_db) = [Some 10, Some 1]
   \<and> fst (auto_update_inventory (Some (map entry [(''A'', 4), (''B'', 5), (''A'', 1)])) example_db)
       = \<lparr>status = 404, body = [(''message'', JString ''Product with SKU B not found or insufficient stock.'')]\<rparr>
   \<and> map intQty (products (snd (auto_update_inventory
         (Some (map entry [(''A'', 4), (''B'', 5), (''A'', 1)])) example_db)))
       = [Some 6, Some 1]
   \<and> fst (auto_update_inventory (Some (map entry [(''A'', 4), (''Z'', 1), (''A'', 1)])) example_db)
       = \<lparr>status = 404, body = [(''message'', JString ''Product with SKU Z not found or insufficient stock.'')]\<rparr>
   \<and> map intQty (products (snd (auto_update_inventory
         (Some (map entry [(''A'', 4), (''Z'', 1), (''A'', 1)])) example_db)))
       = [Some 6, Some 1]
   \<and> fst (auto_update_inventory (Some (map entry [(''A'', 4), (''A'', 0), (''A'', 1)])) example_db)
       = \<lparr>status = 400, body = [(''message'', JString ''Quantity must be greater than zero for SKU: A'')]\<rparr>
   \<and> map intQty (products (snd (auto_update_inventory
         (Some (map entry [(''A'', 4), (''A'', 0), (''A'', 1)])) example_db)))
       = [Some 6, Some 1]"
proof -
  have start: "map intQty (products example_db) = [Some 10, Some 1]"
    by (simp add: example_db_def example_product_def)
  have vB: "\<forall>p \<in> set ([(''A'', 4)] @ (''B'', 5) # [(''A'', 1::int)]). fst p \<noteq> []"
    and vZ: "\<forall>p \<in> set ([(''A'', 4)] @ (''Z'', 1) # [(''A'', 1::int)]). fst p \<noteq> []"
    and vA: "\<forall>p \<in> set ([(''A'', 4)] @ (''A'', 0) # [(''A'', 1::int)]). fst p \<noteq> []"
    by simp_all
  have rB: "(5::int) \<le> 0 \<or> affectedRows (Some 5) (Some ''B'')
     (products (snd (inventory_loop (map entry [(''A'', 4)]) example_db))) = 0"
    and rZ: "(1::int) \<le> 0 \<or> affectedRows (Some 1) (Some ''Z'')
     (products (snd (inventory_loop (map entry [(''A'', 4)]) example_db))) = 0"
    and rA: "(0::int) \<le> 0 \<or> affectedRows (Some 0) (Some ''A'')
     (products (snd (inventory_loop (map entry [(''A'', 4)]) example_db))) = 0"
    using example_one_deduction(2,3) by blast+
  note B = auto_update_inventory_rejection_keeps_deductions[OF vB example_one_deduction(1) rB,
      unfolded append.simps example_one_deduction(4)]
  note Z = auto_update_inventory_rejection_keeps_deductions[OF vZ example_one_deduction(1) rZ,
      unfolded append.simps example_one_deduction(4)]
  note A = auto_update_inventory_rejection_keeps_deductions[OF vA example_one_deduction(1) rA,
      unfolded append.simps example_one_deduction(4)]
  have "map intQty (products (snd (auto_update_inventory
         (Some (map entry [(''A'', 4), (''B'', 5), (''A'', 1)])) example_db))) = [Some 6, Some 1]"
    by (simp only: conjunct1[OF B] example_one_deduction(4))
  moreover have "map intQty (products (snd (auto_update_inventory
         (Some (map entry [(''A'', 4), (''Z'', 1), (''A'', 1)])) example_db))) = [Some 6, Some 1]"
    by (simp only: conjunct1[OF Z] example_one_deduction(4))
  moreover have "map intQty (products (snd (auto_update_inventory
         (Some (map entry [(''A'', 4), (''A'', 0), (''A'', 1)])) example_db))) = [Some 6, Some 1]"
    by (simp only: conjunct1[OF A] example_one_deduction(4))
  moreover have "fst (auto_update_inventory (Some (map entry [(''A'', 4), (''B'', 5), (''A'', 1)])) example_db)
       = \<lparr>status = 404, body = [(''message'', JString ''Product with SKU B not found or insufficient stock.'')]\<rparr>"
    using conjunct2[OF B] by simp
  moreover have "fst (auto_update_inventory (Some (map entry [(''A'', 4), (''Z'', 1), (''A'', 1)])) example_db)
       = \<lparr>status = 404, body = [(''message'', JString ''Product with SKU Z not found or insufficient stock.'')]\<rparr>"
    using conjunct2[OF Z] by simp
  moreover have "fst (auto_update_inventory (Some (map entry [(''A'', 4), (''A'', 0), (''A'', 1)])) example_db)
       = \<lparr>status = 400, body = [(''message'', JString ''Quantity must be greater than zero for SKU: A'')]\<rparr>"
    using conjunct2[OF A] by simp
  ultimately show ?thesis
    using start by blast
qed


end
